theory Spec2Isabelle
  imports Complex_Main
begin

section \<open>Data model\<close>

text \<open>
  The embedding follows three source files: \<^verbatim>\<open>device.ts\<close> (class \<^verbatim>\<open>deviceBase\<close>),
  \<^verbatim>\<open>iosensor.ts\<close> (class \<^verbatim>\<open>IOSensor\<close>) and \<^verbatim>\<open>motion.ts\<close> (class \<^verbatim>\<open>Motion\<close>).

  Conventions.
  \<^item> A JavaScript \<^verbatim>\<open>number\<close> is a \<^typ>\<open>real\<close>; \<^verbatim>\<open>NaN\<close> and the infinities are
    outside the model. Status codes are \<^typ>\<open>int\<close>.
  \<^item> An optional property (\<^verbatim>\<open>x?: T\<close>, or a key tested with \<^verbatim>\<open>in\<close>) is an
    \<^typ>\<open>'a option\<close>; \<^verbatim>\<open>a ?? b\<close> is a case distinction on it.
  \<^item> \<^verbatim>\<open>this\<close> is passed in and returned. Everything a method does to the outside
    world (a log line, a radio scan, a cloud request, a value pushed to HomeKit, a
    write to \<^verbatim>\<open>accessory.context\<close>) is appended, in program order, to the
    \<open>events\<close> of the object. Calls of \<^verbatim>\<open>debugLog\<close> are left out; every other
    log call is recorded with the fixed part of its message.
  \<^item> What the platform, the radio library and the cloud client answer during one
    refresh cycle is an input, the record \<open>env\<close>.
\<close>

datatype StatusLowBattery = BATTERY_LEVEL_NORMAL | BATTERY_LEVEL_LOW

datatype CharacteristicValue =
    Number real
  | LowBattery StatusLowBattery
  | Boolean bool
  | Text string
  | ErrorObject string

text \<open>
  The characteristics these devices expose. Each one lives on exactly one service
  of the accessory, so the pair (\<^verbatim>\<open>Service\<close>, \<^verbatim>\<open>Characteristic\<close>) that the source
  passes around is identified by the characteristic.
\<close>

datatype Characteristic =
    HAP_CurrentRelativeHumidity
  | HAP_CurrentTemperature
  | HAP_BatteryLevel
  | HAP_StatusLowBattery
  | HAP_MotionDetected
  | HAP_CurrentAmbientLightLevel
  | HAP_HardwareRevision
  | HAP_FirmwareRevision

text \<open>
  The two enumerations of the radio library that \<^verbatim>\<open>getDeviceContext\<close> uses, with
  the members it names.
\<close>

datatype SwitchBotBLEModel =
    BLEModel_OutdoorMeter
  | BLEModel_MotionSensor
  | BLEModel_Meter
  | BLEModel_MeterPlus
  | BLEModel_MeterPro
  | BLEModel_MeterProCO2
  | BLEModel_ContactSensor
  | BLEModel_Humidifier
  | BLEModel_Hub2
  | BLEModel_Bot
  | BLEModel_Leak
  | BLEModel_Curtain
  | BLEModel_Curtain3
  | BLEModel_BlindTilt
  | BLEModel_PlugMiniUS
  | BLEModel_PlugMiniJP
  | BLEModel_Lock
  | BLEModel_LockPro
  | BLEModel_ColorBulb
  | BLEModel_CeilingLight
  | BLEModel_CeilingLightPro
  | BLEModel_StripLight
  | BLEModel_Unknown

datatype SwitchBotBLEModelName =
    BLEModelName_OutdoorMeter
  | BLEModelName_MotionSensor
  | BLEModelName_Meter
  | BLEModelName_MeterPlus
  | BLEModelName_MeterPro
  | BLEModelName_MeterProCO2
  | BLEModelName_ContactSensor
  | BLEModelName_Humidifier
  | BLEModelName_Hub2
  | BLEModelName_Bot
  | BLEModelName_Leak
  | BLEModelName_Curtain
  | BLEModelName_Curtain3
  | BLEModelName_BlindTilt
  | BLEModelName_PlugMini
  | BLEModelName_Lock
  | BLEModelName_LockPro
  | BLEModelName_ColorBulb
  | BLEModelName_CeilingLight
  | BLEModelName_CeilingLightPro
  | BLEModelName_StripLight
  | BLEModelName_Unknown

datatype logMethod =
    InfoLog | WarnLog | ErrorLog | DebugWarnLog | DebugErrorLog | DebugSuccessLog

datatype event =
    Log logMethod string
  | ConnectBLE
  | RadioScan
  | CloudFetch
  | MqttPublish string CharacteristicValue
  | HistoryAddEntry
  | HostUpdate Characteristic CharacteristicValue
  | ContextSet string CharacteristicValue

text \<open>
  \<^verbatim>\<open>device & devicesConfig\<close>, with the fields of \<^verbatim>\<open>indoorOutdoorSensorConfig\<close> and
  \<^verbatim>\<open>motionConfig\<close> that the source reads through a cast of the same object.
  Fields that are only tested for truthiness are booleans. \<open>bleMac\<close> is the
  address that \<^verbatim>\<open>switchbotBLE()\<close> stores before a scan,
  \<^verbatim>\<open>formatDeviceIdAsMac(deviceId)\<close>; that function (\<^verbatim>\<open>utils.ts\<close>) is not among the
  sources, so its result is taken as given. \<open>bleModel\<close> and \<open>bleModelName\<close> are
  written by \<^verbatim>\<open>getDeviceContext\<close>.
\<close>

record devicesConfig =
  deviceId :: string
  hubDeviceId :: string
  deviceType :: string
  bleMac :: string
  bleModel :: SwitchBotBLEModel
  bleModelName :: SwitchBotBLEModelName
  connectionType :: string
  enableCloudService :: bool
  offline :: bool
  webhook :: bool
  history :: bool
  mqttURL :: "string option"
  refreshRate :: "real option"
  updateRate :: "real option"
  pushRate :: "real option"
  maxRetries :: "real option"
  delayBetweenRetries :: "real option"
  configScanDuration :: "real option"
  hide_humidity :: bool
  hide_temperature :: bool
  convertUnitTo :: "string option"
  hide_lightsensor :: bool
  set_minLux :: "real option"
  set_maxLux :: "real option"

record platform =
  token :: "string option"
  platformRefreshRate :: "real option"
  platformUpdateRate :: "real option"
  platformPushRate :: "real option"
  platformMaxRetries :: "real option"
  platformDelayBetweenRetries :: "real option"

record deviceBase =
  device :: devicesConfig
  platform :: platform
  deviceRefreshRate :: real
  deviceUpdateRate :: real
  devicePushRate :: real
  deviceMaxRetries :: real
  deviceDelayBetweenRetries :: real
  scanDuration :: real
  historyService :: bool
  hostValues :: "Characteristic \<Rightarrow> CharacteristicValue option"
  accessoryContext :: "string \<Rightarrow> CharacteristicValue option"
  events :: "event list"

text \<open>JavaScript truthiness of an optional string and of an optional number.\<close>

definition truthyString :: "string option \<Rightarrow> bool" where
  "truthyString s = (case s of None \<Rightarrow> False | Some t \<Rightarrow> t \<noteq> [])"

definition truthyNumber :: "real option \<Rightarrow> bool" where
  "truthyNumber x = (case x of None \<Rightarrow> False | Some r \<Rightarrow> r \<noteq> 0)"

text \<open>\<^verbatim>\<open>a ?? b\<close>\<close>

definition nullish :: "'a option \<Rightarrow> 'a \<Rightarrow> 'a" where
  "nullish a b = (case a of None \<Rightarrow> b | Some v \<Rightarrow> v)"

definition emit :: "event \<Rightarrow> 'a deviceBase_scheme \<Rightarrow> 'a deviceBase_scheme" where
  "emit e this = this\<lparr>events := events this @ [e]\<rparr>"

section \<open>deviceBase (device.ts)\<close>

definition BLE :: "'a deviceBase_scheme \<Rightarrow> bool" where
  "BLE this = (connectionType (device this) = ''BLE''
             \<or> connectionType (device this) = ''BLE/OpenAPI'')"

definition OpenAPI :: "'a deviceBase_scheme \<Rightarrow> bool" where
  "OpenAPI this = (connectionType (device this) = ''OpenAPI''
                 \<or> connectionType (device this) = ''BLE/OpenAPI'')"

text \<open>
  \<^verbatim>\<open>getDeviceRateSettings\<close>. The labels computed for the debug lines are left out
  with the debug lines; the warning is kept.
\<close>

definition getDeviceRateSettings :: "'a deviceBase_scheme \<Rightarrow> 'a deviceBase_scheme" where
  "getDeviceRateSettings this =
    (let d = device this; p = platform this;
         rr = nullish (refreshRate d) (nullish (platformRefreshRate p) 300);
         ur = nullish (updateRate d) (nullish (platformUpdateRate p) 5);
         pr = nullish (pushRate d) (nullish (platformPushRate p) (1 / 10));
         mr = nullish (maxRetries d) (nullish (platformMaxRetries p) 2);
         dr = (if truthyNumber (delayBetweenRetries d)
               then nullish (delayBetweenRetries d) 0 * 1000
               else nullish (platformDelayBetweenRetries p) 3000);
         sc = max (nullish (configScanDuration d) 1) (if ur > 1 then ur else 1);
         this1 = this\<lparr>deviceRefreshRate := rr, deviceUpdateRate := ur,
                       devicePushRate := pr, deviceMaxRetries := mr,
                       deviceDelayBetweenRetries := dr, scanDuration := sc\<rparr>
     in if BLE this1
        then (if truthyNumber (configScanDuration d) \<and> ur > nullish (configScanDuration d) 0
              then emit (Log WarnLog ''scanDuration is less than updateRate, overriding scanDuration with updateRate'') this1
              else this1)
        else this1)"

text \<open>
  \<^verbatim>\<open>getDeviceContext\<close>: the BLE columns of its table from device type to models,
  the default for a type the table lacks, and the assignment to the device. The
  \<^verbatim>\<open>model\<close> and friendly-name columns and the firmware version it also sets are
  left out.
\<close>

definition deviceMapping :: "(string \<times> SwitchBotBLEModel \<times> SwitchBotBLEModelName) list" where
  "deviceMapping =
    [(''Humidifier'', BLEModel_Humidifier, BLEModelName_Humidifier),
     (''Hub Mini'', BLEModel_Unknown, BLEModelName_Unknown),
     (''Hub Plus'', BLEModel_Unknown, BLEModelName_Unknown),
     (''Hub 2'', BLEModel_Hub2, BLEModelName_Hub2),
     (''Bot'', BLEModel_Bot, BLEModelName_Bot),
     (''Meter'', BLEModel_Meter, BLEModelName_Meter),
     (''MeterPlus'', BLEModel_MeterPlus, BLEModelName_MeterPlus),
     (''Meter Plus (JP)'', BLEModel_MeterPlus, BLEModelName_MeterPlus),
     (''Meter Pro'', BLEModel_MeterPro, BLEModelName_MeterPro),
     (''MeterPro(CO2)'', BLEModel_MeterProCO2, BLEModelName_MeterProCO2),
     (''WoIOSensor'', BLEModel_OutdoorMeter, BLEModelName_OutdoorMeter),
     (''Water Detector'', BLEModel_Leak, BLEModelName_Leak),
     (''Motion Sensor'', BLEModel_MotionSensor, BLEModelName_MotionSensor),
     (''Contact Sensor'', BLEModel_ContactSensor, BLEModelName_ContactSensor),
     (''Curtain'', BLEModel_Curtain, BLEModelName_Curtain),
     (''Curtain3'', BLEModel_Curtain3, BLEModelName_Curtain3),
     (''WoRollerShade'', BLEModel_Curtain3, BLEModelName_Curtain3),
     (''Roller Shade'', BLEModel_Curtain3, BLEModelName_Curtain3),
     (''Blind Tilt'', BLEModel_BlindTilt, BLEModelName_BlindTilt),
     (''Plug'', BLEModel_PlugMiniUS, BLEModelName_PlugMini),
     (''Plug Mini (US)'', BLEModel_PlugMiniUS, BLEModelName_PlugMini),
     (''Plug Mini (JP)'', BLEModel_PlugMiniJP, BLEModelName_PlugMini),
     (''Smart Lock'', BLEModel_Lock, BLEModelName_Lock),
     (''Smart Lock Pro'', BLEModel_LockPro, BLEModelName_LockPro),
     (''Color Bulb'', BLEModel_ColorBulb, BLEModelName_ColorBulb),
     (''K10+'', BLEModel_Unknown, BLEModelName_Unknown),
     (''K10+ Pro'', BLEModel_Unknown, BLEModelName_Unknown),
     (''WoSweeper'', BLEModel_Unknown, BLEModelName_Unknown),
     (''WoSweeperMini'', BLEModel_Unknown, BLEModelName_Unknown),
     (''Robot Vacuum Cleaner S1'', BLEModel_Unknown, BLEModelName_Unknown),
     (''Robot Vacuum Cleaner S1 Plus'', BLEModel_Unknown, BLEModelName_Unknown),
     (''Robot Vacuum Cleaner S10'', BLEModel_Unknown, BLEModelName_Unknown),
     (''Ceiling Light'', BLEModel_CeilingLight, BLEModelName_CeilingLight),
     (''Ceiling Light Pro'', BLEModel_CeilingLightPro, BLEModelName_CeilingLightPro),
     (''Strip Light'', BLEModel_StripLight, BLEModelName_StripLight),
     (''Indoor Cam'', BLEModel_Unknown, BLEModelName_Unknown),
     (''Remote'', BLEModel_Unknown, BLEModelName_Unknown),
     (''remote with screen+'', BLEModel_Unknown, BLEModelName_Unknown),
     (''Battery Circulator Fan'', BLEModel_Unknown, BLEModelName_Unknown)]"

definition getDeviceContext :: "'a deviceBase_scheme \<Rightarrow> 'a deviceBase_scheme" where
  "getDeviceContext this =
    (let deviceConfig = (case map_of deviceMapping (deviceType (device this)) of
                           None \<Rightarrow> (BLEModel_Unknown, BLEModelName_Unknown)
                         | Some c \<Rightarrow> c)
     in this\<lparr>device := (device this)\<lparr>bleModel := fst deviceConfig,
                                       bleModelName := snd deviceConfig\<rparr>\<rparr>)"

text \<open>\<^verbatim>\<open>getLightLevel\<close>\<close>

definition getLightLevel :: "real \<Rightarrow> real \<Rightarrow> real \<Rightarrow> real \<Rightarrow> real" where
  "getLightLevel lightLevel minLux maxLux spaceBetweenLevels =
    (let numberOfLevels = spaceBetweenLevels + 1
     in if lightLevel = 1 then minLux
        else if lightLevel = numberOfLevels then maxLux
        else ((maxLux - minLux) / spaceBetweenLevels) * (lightLevel - 1))"

text \<open>\<^verbatim>\<open>successfulStatusCodes\<close>, on the status code of the cloud's answer.\<close>

definition successfulStatusCodes :: "int \<Rightarrow> bool" where
  "successfulStatusCodes statusCode = (statusCode = 200 \<or> statusCode = 100)"

text \<open>
  \<^verbatim>\<open>mqtt\<close> and \<^verbatim>\<open>updateCharacteristic\<close>. \<open>Service_updateCharacteristic\<close> is the
  call \<^verbatim>\<open>Service.updateCharacteristic(Characteristic, value)\<close> of the host library:
  HomeKit now holds the value. The \<^verbatim>\<open>history\<close> argument only feeds the history
  entry and is left out; the entry itself is an event.
\<close>

definition mqtt :: "string \<Rightarrow> CharacteristicValue \<Rightarrow> 'a deviceBase_scheme \<Rightarrow> 'a deviceBase_scheme" where
  "mqtt CharacteristicName v this =
    (if truthyString (mqttURL (device this))
     then emit (MqttPublish CharacteristicName v) this
     else this)"

definition Service_updateCharacteristic ::
    "Characteristic \<Rightarrow> CharacteristicValue \<Rightarrow> 'a deviceBase_scheme \<Rightarrow> 'a deviceBase_scheme" where
  "Service_updateCharacteristic c v this =
    emit (HostUpdate c v) (this\<lparr>hostValues := (hostValues this)(c \<mapsto> v)\<rparr>)"

definition updateCharacteristic ::
    "Characteristic \<Rightarrow> CharacteristicValue option \<Rightarrow> string \<Rightarrow> 'a deviceBase_scheme \<Rightarrow> 'a deviceBase_scheme" where
  "updateCharacteristic c value CharacteristicName this =
    (case value of
       None \<Rightarrow> this
     | Some v \<Rightarrow>
        (let this1 = mqtt CharacteristicName v this;
             this2 = (if history (device this1) \<and> historyService this1
                      then emit HistoryAddEntry this1 else this1);
             this3 = Service_updateCharacteristic c v this2;
             this4 = emit (Log DebugWarnLog ''context before'') this3;
             this5 = emit (ContextSet CharacteristicName v)
                       (this4\<lparr>accessoryContext := (accessoryContext this4)(CharacteristicName \<mapsto> v)\<rparr>)
         in emit (Log DebugWarnLog ''context after'') this5))"

text \<open>
  \<^verbatim>\<open>statusCode\<close>: the table of messages, the remapping of 171, and the log call it
  ends with. The result is the log method, the message (a table entry, or the
  unknown-code text, which quotes the code) and the code that is logged.
\<close>

datatype logMessage = KnownStatus string | UnknownStatus int

definition statusMessages :: "string \<Rightarrow> int \<Rightarrow> string option" where
  "statusMessages hub c =
    (if c = 151 then Some ''Command not supported by this deviceType''
     else if c = 152 then Some ''Device not found''
     else if c = 160 then Some ''Command is not supported''
     else if c = 161 then Some ''Device is offline''
     else if c = 171 then Some (''Hub Device is offline. Hub: '' @ hub)
     else if c = 190 then Some ''Device internal error due to device states not synchronized with server, or command format is invalid''
     else if c = 100 then Some ''Command successfully sent''
     else if c = 200 then Some ''Request successful''
     else if c = 400 then Some ''Bad Request, an invalid payload request''
     else if c = 401 then Some ''Unauthorized, Authorization for the API is required, but the request has not been authenticated''
     else if c = 403 then Some ''Forbidden, The request has been authenticated but does not have appropriate permissions, or a requested resource is not found''
     else if c = 404 then Some ''Not Found, Specifies the requested path does not exist''
     else if c = 406 then Some ''Not Acceptable, a MIME type has been requested via the Accept header for a value not supported by the server''
     else if c = 415 then Some ''Unsupported Media Type, a contentType header has been defined that is not supported by the server''
     else if c = 422 then Some ''Unprocessable Entity: The server cannot process the request, often due to exceeded API limits.''
     else if c = 429 then Some ''Too Many Requests, exceeded the number of requests allowed for a given time window''
     else if c = 500 then Some ''Internal Server Error, An unexpected error occurred. These errors should be rare''
     else None)"

definition remapStatusCode :: "devicesConfig \<Rightarrow> int \<Rightarrow> int" where
  "remapStatusCode d statusCode =
    (if statusCode = 171 \<and> (hubDeviceId d = deviceId d \<or> hubDeviceId d = ''000000000000'')
     then 161 else statusCode)"

datatype statusLogMethod = Status_debugLog | Status_errorLog | Status_infoLog

definition statusCode :: "devicesConfig \<Rightarrow> int \<Rightarrow> statusLogMethod \<times> logMessage \<times> int" where
  "statusCode d c0 =
    (let c = remapStatusCode d c0;
         logMessage = (case statusMessages (hubDeviceId d) c of
                         Some m \<Rightarrow> (if m \<noteq> [] then KnownStatus m else UnknownStatus c)
                       | None \<Rightarrow> UnknownStatus c);
         logMethod = (if c = 100 \<or> c = 200 then Status_debugLog
                      else if truthyString (statusMessages (hubDeviceId d) c) then Status_errorLog
                      else Status_infoLog)
     in (logMethod, logMessage, c))"

section \<open>IOSensor (iosensor.ts)\<close>

record battery =
  BatteryLevel :: real
  StatusLowBattery :: StatusLowBattery

text \<open>
  A stored reading is a number or \<^verbatim>\<open>undefined\<close> (\<open>None\<close>): the radio path stores
  what the payload holds, and a payload may lack the field.
\<close>

record humiditySensor =
  CurrentRelativeHumidity :: "real option"

record temperatureSensor =
  CurrentTemperature :: "real option"

record IOSensor = deviceBase +
  Battery :: battery
  HumiditySensor :: "humiditySensor option"
  TemperatureSensor :: "temperatureSensor option"
  ioSensorUpdateInProgress :: bool

text \<open>
  The three payloads: radio service data, cloud status, webhook context. A
  \<open>deviceStatusRequest\<close> is what \<^verbatim>\<open>openAPIRefreshStatus\<close> reads as
  \<^verbatim>\<open>response.body\<close>: the status code it tests and the body it parses.
\<close>

record outdoorMeterServiceData =
  ble_model :: SwitchBotBLEModel
  ble_modelName :: SwitchBotBLEModelName
  ble_battery :: "real option"
  ble_celsius :: "real option"
  ble_humidity :: "real option"

record ad =
  ad_address :: string
  ad_serviceData :: outdoorMeterServiceData

record outdoorMeterStatus =
  api_battery :: real
  api_temperature :: real
  api_humidity :: real
  api_version :: "string option"

record outdoorMeterWebhookContext =
  wh_scale :: string
  wh_temperature :: real
  wh_humidity :: real

record deviceStatusRequest =
  api_statusCode :: int
  api_body :: outdoorMeterStatus

datatype cloudReply = Thrown string | Response deviceStatusRequest

text \<open>
  What the collaborators answer during one refresh cycle: whether
  \<^verbatim>\<open>switchbotBLE()\<close> returns an object, the advertisements the radio delivers
  while the scan waits, and what \<^verbatim>\<open>deviceRefreshStatus\<close> gives: an exception or
  the cloud's answer.
\<close>

record env =
  switchbotBLE :: bool
  advertisements :: "ad list"
  deviceRefreshStatus :: cloudReply

text \<open>
  \<^verbatim>\<open>monitorAdvertisementPackets\<close>, for the advertisements that arrive while the scan
  waits, in their order. The result starts as the device's own model and model name
  with no other field; the handler replaces it by the service data of an
  advertisement from the device's address whose model is the device's. The scan
  itself (\<^verbatim>\<open>startScan\<close>, \<^verbatim>\<open>wait\<close>, \<^verbatim>\<open>stopScan\<close>) is the event \<open>RadioScan\<close> that
  the caller records; a failure to start or stop it, which the source only logs, is
  left out.
\<close>

definition monitorAdvertisementPackets :: "'a deviceBase_scheme \<Rightarrow> ad list \<Rightarrow> outdoorMeterServiceData" where
  "monitorAdvertisementPackets this ads =
    foldl (\<lambda>serviceData a.
             if bleMac (device this) = ad_address a
                \<and> ble_model (ad_serviceData a) = bleModel (device this)
             then ad_serviceData a else serviceData)
          \<lparr>ble_model = bleModel (device this), ble_modelName = bleModelName (device this),
           ble_battery = None, ble_celsius = None, ble_humidity = None\<rparr>
          ads"

text \<open>
  Modelled from the spec: \<^verbatim>\<open>validHumidity\<close> of \<^verbatim>\<open>utils.ts\<close>, which is not among
  the sources. The spec has the decoder clamp humidity to its bounds
  (``humidity clamped to [0,100]'', ``humidity > 100 \<open>\<rightarrow>\<close> 100''). The spec speaks
  of numbers only; for a payload without the field the model yields no number.
\<close>

definition validHumidity :: "real option \<Rightarrow> real \<Rightarrow> real \<Rightarrow> real option" where
  "validHumidity h lo hi = map_option (\<lambda>x. max lo (min hi x)) h"

text \<open>
  \<^verbatim>\<open>version.replace(/^V|-.*$/g, '')\<close>, for a version string without a line break:
  a leading V goes, and so does everything from the first hyphen on.
\<close>

definition stripVersion :: "string \<Rightarrow> string" where
  "stripVersion v =
    takeWhile (\<lambda>c. c \<noteq> CHR ''-'')
      (case v of [] \<Rightarrow> [] | c # cs \<Rightarrow> if c = CHR ''V'' then cs else v)"

definition BLEparseStatus :: "outdoorMeterServiceData \<Rightarrow> IOSensor \<Rightarrow> IOSensor" where
  "BLEparseStatus serviceData this =
    (let this1 = (case ble_battery serviceData of
                    None \<Rightarrow> this
                  | Some b \<Rightarrow>
                      this\<lparr>Battery := (Battery this)\<lparr>BatteryLevel := b,
                               StatusLowBattery := (if b < 10 then BATTERY_LEVEL_LOW
                                                    else BATTERY_LEVEL_NORMAL)\<rparr>\<rparr>);
         this2 = (case HumiditySensor this1 of
                    None \<Rightarrow> this1
                  | Some h \<Rightarrow>
                      if \<not> hide_humidity (device this1)
                      then this1\<lparr>HumiditySensor := Some (h\<lparr>CurrentRelativeHumidity :=
                                   validHumidity (ble_humidity serviceData) 0 100\<rparr>)\<rparr>
                      else this1)
     in (case TemperatureSensor this2 of
           None \<Rightarrow> this2
         | Some t \<Rightarrow>
             if \<not> hide_temperature (device this2)
             then (let CELSIUS = (case ble_celsius serviceData of
                                    None \<Rightarrow> None
                                  | Some c \<Rightarrow> Some (if c < 0 then 0
                                                     else if c > 100 then 100
                                                     else c))
                   in this2\<lparr>TemperatureSensor := Some (t\<lparr>CurrentTemperature := CELSIUS\<rparr>)\<rparr>)
             else this2))"

definition openAPIparseStatus :: "outdoorMeterStatus \<Rightarrow> IOSensor \<Rightarrow> IOSensor" where
  "openAPIparseStatus deviceStatus this =
    (let this1 = this\<lparr>Battery := (Battery this)\<lparr>BatteryLevel := api_battery deviceStatus,
                          StatusLowBattery := (if api_battery deviceStatus < 10
                                               then BATTERY_LEVEL_LOW
                                               else BATTERY_LEVEL_NORMAL)\<rparr>\<rparr>;
         this2 = (case HumiditySensor this1 of
                    None \<Rightarrow> this1
                  | Some h \<Rightarrow>
                      if \<not> hide_humidity (device this1)
                      then this1\<lparr>HumiditySensor := Some (h\<lparr>CurrentRelativeHumidity :=
                                   Some (api_humidity deviceStatus)\<rparr>)\<rparr>
                      else this1);
         this3 = (case TemperatureSensor this2 of
                    None \<Rightarrow> this2
                  | Some t \<Rightarrow>
                      if \<not> hide_temperature (device this2)
                      then this2\<lparr>TemperatureSensor := Some (t\<lparr>CurrentTemperature :=
                                   Some (api_temperature deviceStatus)\<rparr>)\<rparr>
                      else this2)
     in if truthyString (api_version deviceStatus)
        then (let deviceVersion = stripVersion (nullish (api_version deviceStatus) []);
                  this4 = Service_updateCharacteristic HAP_HardwareRevision (Text deviceVersion) this3;
                  this5 = Service_updateCharacteristic HAP_FirmwareRevision (Text deviceVersion) this4;
                  this6 = Service_updateCharacteristic HAP_FirmwareRevision (Text deviceVersion) this5;
                  this7 = emit (ContextSet ''version'' (Text deviceVersion))
                            (this6\<lparr>accessoryContext :=
                                      (accessoryContext this6)(''version'' \<mapsto> Text deviceVersion)\<rparr>)
              in emit (Log DebugSuccessLog ''version'') this7)
        else this3)"

text \<open>
  \<^verbatim>\<open>parseStatusWebhook\<close>. \<^verbatim>\<open>convertUnits\<close> of \<^verbatim>\<open>utils.ts\<close> is not among the
  sources and is a parameter.
\<close>

definition parseStatusWebhook ::
    "(real \<Rightarrow> string \<Rightarrow> string option \<Rightarrow> real) \<Rightarrow> outdoorMeterWebhookContext \<Rightarrow> IOSensor \<Rightarrow> IOSensor" where
  "parseStatusWebhook convertUnits webhookContext this =
    (let this1 = (if wh_scale webhookContext \<noteq> ''CELSIUS'' \<and> convertUnitTo (device this) = None
                  then emit (Log WarnLog ''received a non-CELSIUS Webhook scale'') this
                  else this);
         this2 = (case HumiditySensor this1 of
                    None \<Rightarrow> this1
                  | Some h \<Rightarrow>
                      if hide_humidity (device this1)
                      then this1\<lparr>HumiditySensor := Some (h\<lparr>CurrentRelativeHumidity :=
                                   Some (wh_humidity webhookContext)\<rparr>)\<rparr>
                      else this1)
     in (case TemperatureSensor this2 of
           None \<Rightarrow> this2
         | Some t \<Rightarrow>
             if hide_temperature (device this2)
             then this2\<lparr>TemperatureSensor := Some (t\<lparr>CurrentTemperature :=
                          Some (convertUnits (wh_temperature webhookContext) (wh_scale webhookContext)
                                  (convertUnitTo (device this2)))\<rparr>)\<rparr>
             else this2))"

definition updateHomeKitCharacteristics :: "IOSensor \<Rightarrow> IOSensor" where
  "updateHomeKitCharacteristics this =
    (let this1 = (case HumiditySensor this of
                    None \<Rightarrow> this
                  | Some h \<Rightarrow>
                      if \<not> hide_humidity (device this)
                      then updateCharacteristic HAP_CurrentRelativeHumidity
                             (map_option Number (CurrentRelativeHumidity h)) ''CurrentRelativeHumidity'' this
                      else this);
         this2 = (case TemperatureSensor this1 of
                    None \<Rightarrow> this1
                  | Some t \<Rightarrow>
                      if \<not> hide_temperature (device this1)
                      then updateCharacteristic HAP_CurrentTemperature
                             (map_option Number (CurrentTemperature t)) ''CurrentTemperature'' this1
                      else this1);
         this3 = updateCharacteristic HAP_BatteryLevel
                   (Some (Number (BatteryLevel (Battery this2)))) ''BatteryLevel'' this2
     in updateCharacteristic HAP_StatusLowBattery
          (Some (LowBattery (StatusLowBattery (Battery this3)))) ''StatusLowBattery'' this3)"

definition apiError :: "string \<Rightarrow> IOSensor \<Rightarrow> IOSensor" where
  "apiError e this =
    (let this1 = (if \<not> hide_humidity (device this) \<and> HumiditySensor this \<noteq> None
                  then Service_updateCharacteristic HAP_CurrentRelativeHumidity (ErrorObject e) this
                  else this);
         this2 = (if \<not> hide_temperature (device this1) \<and> TemperatureSensor this1 \<noteq> None
                  then Service_updateCharacteristic HAP_CurrentTemperature (ErrorObject e) this1
                  else this1);
         this3 = Service_updateCharacteristic HAP_BatteryLevel (ErrorObject e) this2
     in Service_updateCharacteristic HAP_StatusLowBattery (ErrorObject e) this3)"

definition offlineOff :: "IOSensor \<Rightarrow> IOSensor" where
  "offlineOff this =
    (if offline (device this)
     then (let this1 = (if \<not> hide_humidity (device this) \<and> HumiditySensor this \<noteq> None
                        then Service_updateCharacteristic HAP_CurrentRelativeHumidity (Number 50) this
                        else this)
           in if \<not> hide_temperature (device this1) \<and> TemperatureSensor this1 \<noteq> None
              then Service_updateCharacteristic HAP_CurrentTemperature (Number 30) this1
              else this1)
     else this)"

definition openAPIRefreshStatus :: "env \<Rightarrow> IOSensor \<Rightarrow> IOSensor" where
  "openAPIRefreshStatus e this =
    (let this1 = emit CloudFetch this
     in case deviceRefreshStatus e of
          Thrown msg \<Rightarrow>
            emit (Log ErrorLog ''failed openAPIRefreshStatus'') (apiError msg this1)
        | Response deviceStatus \<Rightarrow>
            if successfulStatusCodes (api_statusCode deviceStatus)
            then updateHomeKitCharacteristics
                   (openAPIparseStatus (api_body deviceStatus)
                      (emit (Log DebugSuccessLog ''statusCode'') this1))
            else emit (Log DebugWarnLog ''deviceStatus'')
                   (emit (Log DebugWarnLog ''statusCode'') this1))"

definition BLERefreshConnection :: "env \<Rightarrow> IOSensor \<Rightarrow> IOSensor" where
  "BLERefreshConnection e this =
    (let this1 = emit (Log ErrorLog ''wasn't able to establish BLE Connection'') this
     in if truthyString (token (platform this1))
           \<and> connectionType (device this1) = ''BLE/OpenAPI''
        then openAPIRefreshStatus e
               (emit (Log WarnLog ''Using OpenAPI Connection to Refresh Status'') this1)
        else this1)"

text \<open>
  \<^verbatim>\<open>BLERefreshStatus\<close>. The source starts the scan in an asynchronous block that it
  does not await; the model runs the block to its end as part of the cycle. The
  payload it tests is the one \<^verbatim>\<open>monitorAdvertisementPackets\<close> returns.
\<close>

definition BLERefreshStatus :: "env \<Rightarrow> IOSensor \<Rightarrow> IOSensor" where
  "BLERefreshStatus e this =
    (let this1 = emit ConnectBLE this
     in if \<not> switchbotBLE e
        then BLERefreshConnection e this1
        else (let this2 = emit RadioScan this1;
                  serviceData = monitorAdvertisementPackets this2 (advertisements e)
              in if ble_model serviceData = BLEModel_OutdoorMeter
                    \<and> ble_modelName serviceData = BLEModelName_OutdoorMeter
                 then updateHomeKitCharacteristics (BLEparseStatus serviceData this2)
                 else BLERefreshConnection e
                        (emit (Log ErrorLog ''failed to get serviceData'') this2)))"

definition refreshStatus :: "env \<Rightarrow> IOSensor \<Rightarrow> IOSensor" where
  "refreshStatus e this =
    (if \<not> enableCloudService (device this) \<and> OpenAPI this
     then emit (Log ErrorLog ''refreshStatus enableCloudService'') this
     else if BLE this
     then BLERefreshStatus e this
     else if OpenAPI this \<and> truthyString (token (platform this))
     then openAPIRefreshStatus e this
     else emit (Log DebugWarnLog ''refreshStatus will not happen.'') (offlineOff this))"

text \<open>
  The constructor, up to the point where it starts the first refresh: the base class
  reads the rate settings and sets the device's models, then the services take their
  values from the saved
  \<^verbatim>\<open>accessory.context\<close> or a default. A sensor object exists exactly when its
  hide flag is off. The in-progress flag is set to false; no other statement of the
  class assigns it. A saved context entry of another type than the one the class
  writes counts as missing.
\<close>

definition contextNumber :: "(string \<Rightarrow> CharacteristicValue option) \<Rightarrow> string \<Rightarrow> real \<Rightarrow> real" where
  "contextNumber ctx k dflt = (case ctx k of Some (Number n) \<Rightarrow> n | _ \<Rightarrow> dflt)"

definition contextLowBattery ::
    "(string \<Rightarrow> CharacteristicValue option) \<Rightarrow> string \<Rightarrow> StatusLowBattery \<Rightarrow> StatusLowBattery" where
  "contextLowBattery ctx k dflt = (case ctx k of Some (LowBattery l) \<Rightarrow> l | _ \<Rightarrow> dflt)"

definition deviceBase_constructor ::
    "platform \<Rightarrow> (string \<Rightarrow> CharacteristicValue option) \<Rightarrow> devicesConfig \<Rightarrow> deviceBase" where
  "deviceBase_constructor p ctx d =
    getDeviceContext
      (getDeviceRateSettings
        \<lparr>device = d, platform = p, deviceRefreshRate = 0, deviceUpdateRate = 0,
         devicePushRate = 0, deviceMaxRetries = 0, deviceDelayBetweenRetries = 0,
         scanDuration = 0, historyService = False, hostValues = Map.empty,
         accessoryContext = ctx, events = []\<rparr>)"

definition IOSensor_constructor ::
    "platform \<Rightarrow> (string \<Rightarrow> CharacteristicValue option) \<Rightarrow> devicesConfig \<Rightarrow> IOSensor" where
  "IOSensor_constructor p ctx d =
    deviceBase.extend (deviceBase_constructor p ctx d)
      (IOSensor.fields
         \<lparr>BatteryLevel = contextNumber ctx ''BatteryLevel'' 100,
          StatusLowBattery = contextLowBattery ctx ''StatusLowBattery'' BATTERY_LEVEL_NORMAL\<rparr>
         (if hide_humidity d then None
          else Some \<lparr>CurrentRelativeHumidity =
                        Some (contextNumber ctx ''CurrentRelativeHumidity'' 50)\<rparr>)
         (if hide_temperature d then None
          else Some \<lparr>CurrentTemperature = Some (contextNumber ctx ''CurrentTemperature'' 30)\<rparr>)
         False)"

text \<open>
  The refresh timer: \<^verbatim>\<open>interval(...).pipe(skipWhile(() => this.ioSensorUpdateInProgress))\<close>
  with \<^verbatim>\<open>refreshStatus\<close> as subscriber. \<open>skipWhile\<close> drops ticks while its
  predicate holds and passes every tick from the first one on for which it fails
  (\<open>taking\<close>). A tick that passes starts a cycle, which stays in flight (\<open>inFlight\<close>,
  with the answers it will get) until it finishes and its effects are applied.
\<close>

datatype timerEvent = Tick env | Finished

record scheduler =
  sensor :: IOSensor
  taking :: bool
  inFlight :: "env list"

definition schedulerStart :: "IOSensor \<Rightarrow> scheduler" where
  "schedulerStart this = \<lparr>sensor = this, taking = False, inFlight = []\<rparr>"

fun schedulerStep :: "scheduler \<Rightarrow> timerEvent \<Rightarrow> scheduler" where
  "schedulerStep sch (Tick e) =
    (if taking sch \<or> \<not> ioSensorUpdateInProgress (sensor sch)
     then sch\<lparr>taking := True, inFlight := inFlight sch @ [e]\<rparr>
     else sch)"
| "schedulerStep sch Finished =
    (case inFlight sch of
       [] \<Rightarrow> sch
     | e # es \<Rightarrow> sch\<lparr>sensor := refreshStatus e (sensor sch), inFlight := es\<rparr>)"

definition schedulerRun :: "scheduler \<Rightarrow> timerEvent list \<Rightarrow> scheduler" where
  "schedulerRun sch evs = foldl schedulerStep sch evs"

section \<open>Motion (motion.ts)\<close>

record motionSensor =
  MotionDetected :: bool

record lightSensor =
  CurrentAmbientLightLevel :: real

record Motion = deviceBase +
  MotionBattery :: battery
  MotionSensor :: motionSensor
  LightSensor :: "lightSensor option"

record motionSensorServiceData =
  mble_model :: SwitchBotBLEModel
  mble_modelName :: SwitchBotBLEModelName
  mble_movement :: bool
  mble_lightLevel :: string
  mble_battery :: "real option"

definition Motion_BLEparseStatus :: "motionSensorServiceData \<Rightarrow> Motion \<Rightarrow> Motion" where
  "Motion_BLEparseStatus serviceData this =
    (let this1 = this\<lparr>MotionSensor := (MotionSensor this)\<lparr>MotionDetected := mble_movement serviceData\<rparr>\<rparr>;
         this2 = (case LightSensor this1 of
                    None \<Rightarrow> this1
                  | Some l \<Rightarrow>
                      if \<not> hide_lightsensor (device this1)
                      then (let minLux = nullish (set_minLux (device this1)) 1;
                                maxLux = nullish (set_maxLux (device this1)) 6001;
                                lightLevel = (if mble_lightLevel serviceData = ''bright''
                                              then maxLux else minLux)
                            in this1\<lparr>LightSensor := Some (l\<lparr>CurrentAmbientLightLevel :=
                                         getLightLevel lightLevel minLux maxLux 2\<rparr>)\<rparr>)
                      else this1)
     in (case mble_battery serviceData of
           None \<Rightarrow> this2
         | Some b \<Rightarrow>
             this2\<lparr>MotionBattery := (MotionBattery this2)\<lparr>BatteryLevel := b,
                      StatusLowBattery := (if b < 10 then BATTERY_LEVEL_LOW
                                           else BATTERY_LEVEL_NORMAL)\<rparr>\<rparr>))"

section \<open>Observations on a run, and sample inputs\<close>

text \<open>
  The events that contact a transport (the BLE connection, the radio scan, the cloud
  request), and the events that publish (a value pushed to HomeKit, a write to the
  accessory's context).
\<close>

fun isTransport :: "event \<Rightarrow> bool" where
  "isTransport ConnectBLE = True"
| "isTransport RadioScan = True"
| "isTransport CloudFetch = True"
| "isTransport e = False"

fun isPublish :: "event \<Rightarrow> bool" where
  "isPublish (HostUpdate c v) = True"
| "isPublish (ContextSet n v) = True"
| "isPublish e = False"

definition transportAttempts :: "'a deviceBase_scheme \<Rightarrow> event list" where
  "transportAttempts this = filter isTransport (events this)"

definition eventsSince :: "'a deviceBase_scheme \<Rightarrow> 'b deviceBase_scheme \<Rightarrow> event list" where
  "eventsSince before after = drop (length (events before)) (events after)"

text \<open>
  The two conditions the BLE path tests: the scanned payload fails the model check of
  \<^verbatim>\<open>BLERefreshStatus\<close>; \<^verbatim>\<open>BLERefreshConnection\<close> may fall back to the cloud.
\<close>

definition mismatched :: "outdoorMeterServiceData \<Rightarrow> bool" where
  "mismatched sd = (ble_model sd \<noteq> BLEModel_OutdoorMeter
                    \<or> ble_modelName sd \<noteq> BLEModelName_OutdoorMeter)"

definition cloudFallback :: "'a deviceBase_scheme \<Rightarrow> bool" where
  "cloudFallback this = (truthyString (token (platform this))
                         \<and> connectionType (device this) = ''BLE/OpenAPI'')"

text \<open>The test of the scan's handler: the advertisement is the device's own.\<close>

definition accepts :: "'a deviceBase_scheme \<Rightarrow> ad \<Rightarrow> bool" where
  "accepts this a = (bleMac (device this) = ad_address a
                     \<and> ble_model (ad_serviceData a) = bleModel (device this))"

definition demoDevice :: devicesConfig where
  "demoDevice =
    \<lparr>deviceId = ''AABBCCDDEEFF'', hubDeviceId = ''000000000000'',
     deviceType = ''WoIOSensor'', bleMac = ''aa:bb:cc:dd:ee:ff'',
     bleModel = BLEModel_Unknown, bleModelName = BLEModelName_Unknown,
     connectionType = ''BLE/OpenAPI'', enableCloudService = True, offline = False,
     webhook = True, history = False, mqttURL = None, refreshRate = None,
     updateRate = Some 10, pushRate = None, maxRetries = None,
     delayBetweenRetries = None, configScanDuration = Some 2,
     hide_humidity = False, hide_temperature = False, convertUnitTo = None,
     hide_lightsensor = False, set_minLux = None, set_maxLux = None\<rparr>"

definition demoPlatform :: platform where
  "demoPlatform =
    \<lparr>token = Some ''secret'', platformRefreshRate = None, platformUpdateRate = None,
     platformPushRate = None, platformMaxRetries = None,
     platformDelayBetweenRetries = None\<rparr>"

definition demoSensor :: IOSensor where
  "demoSensor = IOSensor_constructor demoPlatform Map.empty demoDevice"

definition demoServiceData :: outdoorMeterServiceData where
  "demoServiceData =
    \<lparr>ble_model = BLEModel_OutdoorMeter, ble_modelName = BLEModelName_OutdoorMeter,
     ble_battery = Some 45, ble_celsius = Some 22, ble_humidity = Some 60\<rparr>"

definition demoAd :: ad where
  "demoAd = \<lparr>ad_address = ''aa:bb:cc:dd:ee:ff'', ad_serviceData = demoServiceData\<rparr>"

definition demoStatus :: outdoorMeterStatus where
  "demoStatus = \<lparr>api_battery = 80, api_temperature = 500, api_humidity = 999, api_version = None\<rparr>"

definition demoEnv :: env where
  "demoEnv =
    \<lparr>switchbotBLE = True, advertisements = [demoAd],
     deviceRefreshStatus = Response \<lparr>api_statusCode = 100, api_body = demoStatus\<rparr>\<rparr>"

text \<open>
  Two scans that end in a cloud request that throws. In the first the device's own
  advertisement carries another model name; in the second the only advertisement,
  from the device's address, is of another model.
\<close>

definition demoMismatchEnv :: env where
  "demoMismatchEnv =
    \<lparr>switchbotBLE = True,
     advertisements =
       [demoAd\<lparr>ad_serviceData := demoServiceData\<lparr>ble_modelName := BLEModelName_Meter\<rparr>\<rparr>],
     deviceRefreshStatus = Thrown ''timeout''\<rparr>"

definition demoForeignEnv :: env where
  "demoForeignEnv =
    \<lparr>switchbotBLE = True,
     advertisements =
       [demoAd\<lparr>ad_serviceData := demoServiceData\<lparr>ble_model := BLEModel_Meter,
                                                    ble_modelName := BLEModelName_Meter\<rparr>\<rparr>],
     deviceRefreshStatus = Thrown ''timeout''\<rparr>"

definition demoWebhook :: outdoorMeterWebhookContext where
  "demoWebhook = \<lparr>wh_scale = ''CELSIUS'', wh_temperature = 22, wh_humidity = 60\<rparr>"

definition demoCloudSensor :: IOSensor where
  "demoCloudSensor =
     IOSensor_constructor demoPlatform Map.empty (demoDevice\<lparr>connectionType := ''OpenAPI''\<rparr>)"

definition demoDisabledCloudSensor :: IOSensor where
  "demoDisabledCloudSensor =
     IOSensor_constructor demoPlatform Map.empty
       (demoDevice\<lparr>connectionType := ''OpenAPI'', enableCloudService := False\<rparr>)"

definition demoOfflineSensor :: IOSensor where
  "demoOfflineSensor =
     IOSensor_constructor demoPlatform Map.empty
       (demoDevice\<lparr>connectionType := ''Disabled'', offline := True\<rparr>)"

text \<open>A device on BLE configured with a scan duration of 0.5 and an update rate of 0.4.\<close>

definition demoShortScanDevice :: devicesConfig where
  "demoShortScanDevice =
     demoDevice\<lparr>connectionType := ''BLE'', updateRate := Some (2 / 5),
                 configScanDuration := Some (1 / 2)\<rparr>"

section \<open>What each method leaves alone\<close>

lemma emit_simps [simp]:
  "device (emit e this) = device this"
  "platform (emit e this) = platform this"
  "historyService (emit e this) = historyService this"
  "hostValues (emit e this) = hostValues this"
  "accessoryContext (emit e this) = accessoryContext this"
  "events (emit e this) = events this @ [e]"
  by (simp_all add: emit_def)

lemma emit_IOSensor_simps [simp]:
  "Battery (emit e s) = Battery s"
  "HumiditySensor (emit e s) = HumiditySensor s"
  "TemperatureSensor (emit e s) = TemperatureSensor s"
  "ioSensorUpdateInProgress (emit e s) = ioSensorUpdateInProgress s"
  by (simp_all add: emit_def)

lemma getDeviceRateSettings_frame [simp]:
  "device (getDeviceRateSettings this) = device this"
  "platform (getDeviceRateSettings this) = platform this"
  "historyService (getDeviceRateSettings this) = historyService this"
  "hostValues (getDeviceRateSettings this) = hostValues this"
  "accessoryContext (getDeviceRateSettings this) = accessoryContext this"
  "filter isTransport (events (getDeviceRateSettings this)) = filter isTransport (events this)"
  by (simp_all add: getDeviceRateSettings_def Let_def)

lemma scanDuration_getDeviceRateSettings:
  "scanDuration (getDeviceRateSettings this) =
     max (nullish (configScanDuration (device this)) 1)
         (if 1 < deviceUpdateRate (getDeviceRateSettings this)
          then deviceUpdateRate (getDeviceRateSettings this) else 1)"
  by (simp add: getDeviceRateSettings_def Let_def emit_def)

lemma deviceUpdateRate_getDeviceRateSettings:
  "deviceUpdateRate (getDeviceRateSettings this) =
     nullish (updateRate (device this)) (nullish (platformUpdateRate (platform this)) 5)"
  by (simp add: getDeviceRateSettings_def Let_def emit_def)

lemma events_getDeviceRateSettings:
  "events (getDeviceRateSettings this) =
     events this @
       (if BLE this \<and> truthyNumber (configScanDuration (device this))
           \<and> nullish (configScanDuration (device this)) 0
               < deviceUpdateRate (getDeviceRateSettings this)
        then [Log WarnLog ''scanDuration is less than updateRate, overriding scanDuration with updateRate'']
        else [])"
  unfolding deviceUpdateRate_getDeviceRateSettings
  by (simp add: getDeviceRateSettings_def Let_def BLE_def emit_def)

lemma getDeviceContext_frame [simp]:
  "device (getDeviceContext this) =
     (device this)\<lparr>bleModel := fst (case map_of deviceMapping (deviceType (device this)) of
                                      None \<Rightarrow> (BLEModel_Unknown, BLEModelName_Unknown)
                                    | Some c \<Rightarrow> c),
                   bleModelName := snd (case map_of deviceMapping (deviceType (device this)) of
                                          None \<Rightarrow> (BLEModel_Unknown, BLEModelName_Unknown)
                                        | Some c \<Rightarrow> c)\<rparr>"
  "platform (getDeviceContext this) = platform this"
  "historyService (getDeviceContext this) = historyService this"
  "hostValues (getDeviceContext this) = hostValues this"
  "accessoryContext (getDeviceContext this) = accessoryContext this"
  "events (getDeviceContext this) = events this"
  "scanDuration (getDeviceContext this) = scanDuration this"
  "deviceUpdateRate (getDeviceContext this) = deviceUpdateRate this"
  by (simp_all add: getDeviceContext_def Let_def)

lemma deviceMapping_WoIOSensor:
  "map_of deviceMapping ''WoIOSensor'' = Some (BLEModel_OutdoorMeter, BLEModelName_OutdoorMeter)"
  by (simp add: deviceMapping_def)

section \<open>What the scan returns\<close>

lemma monitorAdvertisementPackets_device:
  "device this' = device this \<Longrightarrow>
   monitorAdvertisementPackets this' ads = monitorAdvertisementPackets this ads"
  by (simp add: monitorAdvertisementPackets_def)

lemma monitorAdvertisementPackets_emit [simp]:
  "monitorAdvertisementPackets (emit ev this) ads = monitorAdvertisementPackets this ads"
  by (rule monitorAdvertisementPackets_device) simp

lemma foldl_handler_model:
  "ble_model sd = m \<Longrightarrow>
   ble_model (foldl (\<lambda>serviceData a. if mac = ad_address a \<and> ble_model (ad_serviceData a) = m
                                     then ad_serviceData a else serviceData) sd ads) = m"
  by (induction ads arbitrary: sd) simp_all

lemma foldl_handler_filter:
  "foldl (\<lambda>serviceData a. if P a then f a else serviceData) sd (filter P ads)
   = foldl (\<lambda>serviceData a. if P a then f a else serviceData) sd ads"
  by (induction ads arbitrary: sd) simp_all

lemma monitorAdvertisementPackets_model:
  "ble_model (monitorAdvertisementPackets this ads) = bleModel (device this)"
  unfolding monitorAdvertisementPackets_def by (rule foldl_handler_model) simp

lemma monitorAdvertisementPackets_filter:
  "monitorAdvertisementPackets this (filter (accepts this) ads)
     = monitorAdvertisementPackets this ads"
proof -
  have "accepts this = (\<lambda>a. bleMac (device this) = ad_address a
                            \<and> ble_model (ad_serviceData a) = bleModel (device this))"
    by (simp add: accepts_def fun_eq_iff)
  then show ?thesis
    unfolding monitorAdvertisementPackets_def
    by (simp only: foldl_handler_filter
          [where P = "\<lambda>a. bleMac (device this) = ad_address a
                            \<and> ble_model (ad_serviceData a) = bleModel (device this)"
             and f = ad_serviceData])
qed

lemma monitorAdvertisementPackets_Nil:
  "monitorAdvertisementPackets this [] =
     \<lparr>ble_model = bleModel (device this), ble_modelName = bleModelName (device this),
      ble_battery = None, ble_celsius = None, ble_humidity = None\<rparr>"
  by (simp add: monitorAdvertisementPackets_def)

lemma Service_updateCharacteristic_frame [simp]:
  "device (Service_updateCharacteristic c v this) = device this"
  "platform (Service_updateCharacteristic c v this) = platform this"
  "historyService (Service_updateCharacteristic c v this) = historyService this"
  "accessoryContext (Service_updateCharacteristic c v this) = accessoryContext this"
  "hostValues (Service_updateCharacteristic c v this) = (hostValues this)(c \<mapsto> v)"
  "filter isTransport (events (Service_updateCharacteristic c v this)) = filter isTransport (events this)"
  by (simp_all add: Service_updateCharacteristic_def)

lemma Service_updateCharacteristic_IOSensor [simp]:
  "Battery (Service_updateCharacteristic c v s) = Battery s"
  "HumiditySensor (Service_updateCharacteristic c v s) = HumiditySensor s"
  "TemperatureSensor (Service_updateCharacteristic c v s) = TemperatureSensor s"
  "ioSensorUpdateInProgress (Service_updateCharacteristic c v s) = ioSensorUpdateInProgress s"
  by (simp_all add: Service_updateCharacteristic_def)

lemma updateCharacteristic_frame [simp]:
  "device (updateCharacteristic c v n this) = device this"
  "platform (updateCharacteristic c v n this) = platform this"
  "historyService (updateCharacteristic c v n this) = historyService this"
  "filter isTransport (events (updateCharacteristic c v n this)) = filter isTransport (events this)"
  by (simp_all add: updateCharacteristic_def mqtt_def Let_def
        Service_updateCharacteristic_def split: option.splits)

lemma updateCharacteristic_IOSensor [simp]:
  "Battery (updateCharacteristic c v n s) = Battery s"
  "HumiditySensor (updateCharacteristic c v n s) = HumiditySensor s"
  "TemperatureSensor (updateCharacteristic c v n s) = TemperatureSensor s"
  "ioSensorUpdateInProgress (updateCharacteristic c v n s) = ioSensorUpdateInProgress s"
  by (simp_all add: updateCharacteristic_def mqtt_def Let_def
        Service_updateCharacteristic_def emit_def split: option.splits)

lemma updateHomeKitCharacteristics_frame [simp]:
  "device (updateHomeKitCharacteristics s) = device s"
  "platform (updateHomeKitCharacteristics s) = platform s"
  "Battery (updateHomeKitCharacteristics s) = Battery s"
  "HumiditySensor (updateHomeKitCharacteristics s) = HumiditySensor s"
  "TemperatureSensor (updateHomeKitCharacteristics s) = TemperatureSensor s"
  "ioSensorUpdateInProgress (updateHomeKitCharacteristics s) = ioSensorUpdateInProgress s"
  "filter isTransport (events (updateHomeKitCharacteristics s)) = filter isTransport (events s)"
  by (simp_all add: updateHomeKitCharacteristics_def Let_def split: option.splits)

lemma BLEparseStatus_frame [simp]:
  "device (BLEparseStatus sd s) = device s"
  "platform (BLEparseStatus sd s) = platform s"
  "events (BLEparseStatus sd s) = events s"
  "hostValues (BLEparseStatus sd s) = hostValues s"
  "accessoryContext (BLEparseStatus sd s) = accessoryContext s"
  "ioSensorUpdateInProgress (BLEparseStatus sd s) = ioSensorUpdateInProgress s"
  by (simp_all add: BLEparseStatus_def Let_def split: option.splits)

lemma openAPIparseStatus_frame [simp]:
  "device (openAPIparseStatus ds s) = device s"
  "platform (openAPIparseStatus ds s) = platform s"
  "ioSensorUpdateInProgress (openAPIparseStatus ds s) = ioSensorUpdateInProgress s"
  "filter isTransport (events (openAPIparseStatus ds s)) = filter isTransport (events s)"
  by (simp_all add: openAPIparseStatus_def Let_def split: option.splits)

lemma apiError_frame [simp]:
  "device (apiError m s) = device s"
  "platform (apiError m s) = platform s"
  "Battery (apiError m s) = Battery s"
  "HumiditySensor (apiError m s) = HumiditySensor s"
  "TemperatureSensor (apiError m s) = TemperatureSensor s"
  "accessoryContext (apiError m s) = accessoryContext s"
  "ioSensorUpdateInProgress (apiError m s) = ioSensorUpdateInProgress s"
  "filter isTransport (events (apiError m s)) = filter isTransport (events s)"
  by (simp_all add: apiError_def Let_def)

lemma offlineOff_frame [simp]:
  "device (offlineOff s) = device s"
  "platform (offlineOff s) = platform s"
  "Battery (offlineOff s) = Battery s"
  "HumiditySensor (offlineOff s) = HumiditySensor s"
  "TemperatureSensor (offlineOff s) = TemperatureSensor s"
  "accessoryContext (offlineOff s) = accessoryContext s"
  "ioSensorUpdateInProgress (offlineOff s) = ioSensorUpdateInProgress s"
  "filter isTransport (events (offlineOff s)) = filter isTransport (events s)"
  by (simp_all add: offlineOff_def Let_def)

lemma offlineOff_hostValues:
  "hostValues (offlineOff s) =
     (if offline (device s)
      then (\<lambda>c. if c = HAP_CurrentTemperature \<and> \<not> hide_temperature (device s)
                      \<and> TemperatureSensor s \<noteq> None
                 then Some (Number 30)
                 else if c = HAP_CurrentRelativeHumidity \<and> \<not> hide_humidity (device s)
                      \<and> HumiditySensor s \<noteq> None
                 then Some (Number 50)
                 else hostValues s c)
      else hostValues s)"
  by (auto simp: offlineOff_def Let_def fun_eq_iff)

lemma openAPIRefreshStatus_frame [simp]:
  "device (openAPIRefreshStatus e s) = device s"
  "platform (openAPIRefreshStatus e s) = platform s"
  "ioSensorUpdateInProgress (openAPIRefreshStatus e s) = ioSensorUpdateInProgress s"
  "filter isTransport (events (openAPIRefreshStatus e s)) = filter isTransport (events s) @ [CloudFetch]"
  by (simp_all add: openAPIRefreshStatus_def Let_def split: cloudReply.splits)

lemma BLERefreshConnection_frame [simp]:
  "device (BLERefreshConnection e s) = device s"
  "platform (BLERefreshConnection e s) = platform s"
  "ioSensorUpdateInProgress (BLERefreshConnection e s) = ioSensorUpdateInProgress s"
  "filter isTransport (events (BLERefreshConnection e s)) =
     filter isTransport (events s) @
       (if truthyString (token (platform s)) \<and> connectionType (device s) = ''BLE/OpenAPI''
        then [CloudFetch] else [])"
  by (simp_all add: BLERefreshConnection_def Let_def)

lemma BLERefreshStatus_frame [simp]:
  "device (BLERefreshStatus e s) = device s"
  "platform (BLERefreshStatus e s) = platform s"
  "ioSensorUpdateInProgress (BLERefreshStatus e s) = ioSensorUpdateInProgress s"
  by (simp_all add: BLERefreshStatus_def Let_def)

lemma refreshStatus_frame [simp]:
  "device (refreshStatus e s) = device s"
  "platform (refreshStatus e s) = platform s"
  "ioSensorUpdateInProgress (refreshStatus e s) = ioSensorUpdateInProgress s"
  by (simp_all add: refreshStatus_def)

lemma IOSensor_constructor_simps [simp]:
  "device (IOSensor_constructor p ctx d) =
     d\<lparr>bleModel := fst (case map_of deviceMapping (deviceType d) of
                          None \<Rightarrow> (BLEModel_Unknown, BLEModelName_Unknown)
                        | Some c \<Rightarrow> c),
       bleModelName := snd (case map_of deviceMapping (deviceType d) of
                              None \<Rightarrow> (BLEModel_Unknown, BLEModelName_Unknown)
                            | Some c \<Rightarrow> c)\<rparr>"
  "platform (IOSensor_constructor p ctx d) = p"
  "historyService (IOSensor_constructor p ctx d) = False"
  "hostValues (IOSensor_constructor p ctx d) = Map.empty"
  "accessoryContext (IOSensor_constructor p ctx d) = ctx"
  "filter isTransport (events (IOSensor_constructor p ctx d)) = []"
  "ioSensorUpdateInProgress (IOSensor_constructor p ctx d) = False"
  "Battery (IOSensor_constructor p ctx d) =
     \<lparr>BatteryLevel = contextNumber ctx ''BatteryLevel'' 100,
      StatusLowBattery = contextLowBattery ctx ''StatusLowBattery'' BATTERY_LEVEL_NORMAL\<rparr>"
  "HumiditySensor (IOSensor_constructor p ctx d) =
     (if hide_humidity d then None
      else Some \<lparr>CurrentRelativeHumidity = Some (contextNumber ctx ''CurrentRelativeHumidity'' 50)\<rparr>)"
  "TemperatureSensor (IOSensor_constructor p ctx d) =
     (if hide_temperature d then None
      else Some \<lparr>CurrentTemperature = Some (contextNumber ctx ''CurrentTemperature'' 30)\<rparr>)"
  by (simp_all add: IOSensor_constructor_def deviceBase_constructor_def
        deviceBase.defs IOSensor.defs)

lemma demo_conditions [simp]:
  "BLE demoSensor" "OpenAPI demoSensor" "cloudFallback demoSensor"
  "enableCloudService (device demoSensor)"
  "transportAttempts demoSensor = []"
  by (simp_all add: demoSensor_def BLE_def OpenAPI_def cloudFallback_def transportAttempts_def
        demoDevice_def demoPlatform_def truthyString_def)

lemma demoSensor_models:
  "bleModel (device demoSensor) = BLEModel_OutdoorMeter"
  "bleModelName (device demoSensor) = BLEModelName_OutdoorMeter"
  "bleMac (device demoSensor) = ''aa:bb:cc:dd:ee:ff''"
  by (simp_all add: demoSensor_def demoDevice_def deviceMapping_WoIOSensor)

section \<open>What the parsers store and what is pushed to HomeKit\<close>

lemma openAPIparseStatus_sensors:
  "HumiditySensor (openAPIparseStatus ds s) =
     (case HumiditySensor s of
        None \<Rightarrow> None
      | Some h \<Rightarrow> if \<not> hide_humidity (device s)
                  then Some (h\<lparr>CurrentRelativeHumidity := Some (api_humidity ds)\<rparr>) else Some h)"
  "TemperatureSensor (openAPIparseStatus ds s) =
     (case TemperatureSensor s of
        None \<Rightarrow> None
      | Some t \<Rightarrow> if \<not> hide_temperature (device s)
                  then Some (t\<lparr>CurrentTemperature := Some (api_temperature ds)\<rparr>) else Some t)"
  by (simp_all add: openAPIparseStatus_def Let_def split: option.splits)

text \<open>
  The radio path does clamp the number a payload holds: humidity to [0, 100],
  temperature to [0, 100].
\<close>

lemma BLEparseStatus_clamps:
  "\<not> hide_humidity (device s) \<Longrightarrow> HumiditySensor (BLEparseStatus sd s) = Some h \<Longrightarrow>
     CurrentRelativeHumidity h = Some x \<Longrightarrow> 0 \<le> x \<and> x \<le> 100"
  "\<not> hide_temperature (device s) \<Longrightarrow> TemperatureSensor (BLEparseStatus sd s) = Some t \<Longrightarrow>
     CurrentTemperature t = Some y \<Longrightarrow> - 273.15 \<le> y \<and> y \<le> 100"
  by (auto simp: BLEparseStatus_def validHumidity_def Let_def split: option.splits if_splits)

text \<open>
  On an object as the constructor builds it, a sensor exists only with its hide flag
  off, and \<^verbatim>\<open>parseStatusWebhook\<close> writes a sensor only with its hide flag on: it
  never writes.
\<close>

lemma parseStatusWebhook_constructed:
  "HumiditySensor (parseStatusWebhook cu wc (IOSensor_constructor p ctx d))
     = HumiditySensor (IOSensor_constructor p ctx d)"
  "TemperatureSensor (parseStatusWebhook cu wc (IOSensor_constructor p ctx d))
     = TemperatureSensor (IOSensor_constructor p ctx d)"
  by (simp_all add: parseStatusWebhook_def Let_def split: option.splits)

lemma updateCharacteristic_hostValues:
  "hostValues (updateCharacteristic c (Some v) n this) = (hostValues this)(c \<mapsto> v)"
  "hostValues (updateCharacteristic c None n this) = hostValues this"
  by (simp_all add: updateCharacteristic_def mqtt_def Let_def)

lemma updateCharacteristic_hostValues_at:
  "hostValues (updateCharacteristic c v n this) c' =
     (case v of None \<Rightarrow> hostValues this c'
              | Some x \<Rightarrow> if c' = c then Some x else hostValues this c')"
  by (cases v) (simp_all add: updateCharacteristic_hostValues)

lemma updateHomeKitCharacteristics_hostValues:
  "hostValues (updateHomeKitCharacteristics s) HAP_CurrentRelativeHumidity =
     (case HumiditySensor s of
        None \<Rightarrow> hostValues s HAP_CurrentRelativeHumidity
      | Some h \<Rightarrow> if \<not> hide_humidity (device s)
                  then (case CurrentRelativeHumidity h of
                          None \<Rightarrow> hostValues s HAP_CurrentRelativeHumidity
                        | Some x \<Rightarrow> Some (Number x))
                  else hostValues s HAP_CurrentRelativeHumidity)"
  "hostValues (updateHomeKitCharacteristics s) HAP_CurrentTemperature =
     (case TemperatureSensor s of
        None \<Rightarrow> hostValues s HAP_CurrentTemperature
      | Some t \<Rightarrow> if \<not> hide_temperature (device s)
                  then (case CurrentTemperature t of
                          None \<Rightarrow> hostValues s HAP_CurrentTemperature
                        | Some y \<Rightarrow> Some (Number y))
                  else hostValues s HAP_CurrentTemperature)"
  by (simp_all add: updateHomeKitCharacteristics_def updateCharacteristic_hostValues_at Let_def
        split: option.splits)

section \<open>The refresh timer\<close>

lemma schedulerStep_flag:
  "ioSensorUpdateInProgress (sensor (schedulerStep sch ev)) = ioSensorUpdateInProgress (sensor sch)"
  by (cases ev) (simp_all split: list.splits)

lemma schedulerRun_flag:
  "ioSensorUpdateInProgress (sensor (schedulerRun sch evs)) = ioSensorUpdateInProgress (sensor sch)"
  unfolding schedulerRun_def
  by (induction evs arbitrary: sch) (simp_all add: schedulerStep_flag)

lemma schedulerRun_ticks:
  "\<not> ioSensorUpdateInProgress (sensor sch) \<Longrightarrow>
   inFlight (schedulerRun sch (map Tick es)) = inFlight sch @ es"
  unfolding schedulerRun_def
  by (induction es arbitrary: sch) simp_all

section \<open>The BLE path\<close>

lemma BLERefreshStatus_transports:
  "filter isTransport (events (BLERefreshStatus e s)) =
     filter isTransport (events s) @ ConnectBLE #
       (if switchbotBLE e then [RadioScan] else []) @
       (if (\<not> switchbotBLE e \<or> mismatched (monitorAdvertisementPackets s (advertisements e)))
           \<and> cloudFallback s
        then [CloudFetch] else [])"
  by (simp add: BLERefreshStatus_def Let_def mismatched_def cloudFallback_def)

lemma BLERefreshStatus_mismatch:
  assumes "switchbotBLE e" and "mismatched (monitorAdvertisementPackets this (advertisements e))"
  shows "BLERefreshStatus e this =
           BLERefreshConnection e
             (emit (Log ErrorLog ''failed to get serviceData'') (emit RadioScan (emit ConnectBLE this)))"
  using assms by (auto simp: BLERefreshStatus_def mismatched_def Let_def)

lemma BLERefreshConnection_env:
  "deviceRefreshStatus e' = deviceRefreshStatus e \<Longrightarrow>
   BLERefreshConnection e' this = BLERefreshConnection e this"
  by (simp add: BLERefreshConnection_def openAPIRefreshStatus_def Let_def)

lemma BLERefreshConnection_no_fallback:
  "\<not> cloudFallback this \<Longrightarrow>
   BLERefreshConnection e this =
     emit (Log ErrorLog ''wasn't able to establish BLE Connection'') this"
  by (auto simp: BLERefreshConnection_def cloudFallback_def Let_def)

section \<open>Claim C1: clamping on every transport\<close>

text \<open>
  Claim C1 says that every transport stores a humidity in [0, 100] and a temperature
  in [-273.15, 100]. The radio path clamps (\<open>BLEparseStatus_clamps\<close>); the cloud
  path does not. On a sensor with connection type OpenAPI, a successful cloud answer
  (status code 100) that reports a humidity of 999 and a temperature of 500 is
  stored as it comes and pushed to HomeKit as it comes.
\<close>

theorem openAPI_stores_unclamped:
  "api_humidity demoStatus = 999 \<and> api_temperature demoStatus = 500
   \<and> HumiditySensor (refreshStatus demoEnv demoCloudSensor)
        = Some \<lparr>CurrentRelativeHumidity = Some 999\<rparr>
   \<and> TemperatureSensor (refreshStatus demoEnv demoCloudSensor)
        = Some \<lparr>CurrentTemperature = Some 500\<rparr>
   \<and> hostValues (refreshStatus demoEnv demoCloudSensor) HAP_CurrentRelativeHumidity
        = Some (Number 999)
   \<and> hostValues (refreshStatus demoEnv demoCloudSensor) HAP_CurrentTemperature
        = Some (Number 500)"
proof -
  have r: "refreshStatus demoEnv demoCloudSensor =
             updateHomeKitCharacteristics
               (openAPIparseStatus demoStatus
                 (emit (Log DebugSuccessLog ''statusCode'') (emit CloudFetch demoCloudSensor)))"
    by (simp add: refreshStatus_def openAPIRefreshStatus_def demoCloudSensor_def demoEnv_def
          demoDevice_def demoPlatform_def OpenAPI_def BLE_def truthyString_def
          successfulStatusCodes_def)
  have f: "\<not> hide_humidity (device demoCloudSensor)" "\<not> hide_temperature (device demoCloudSensor)"
          "HumiditySensor demoCloudSensor = Some \<lparr>CurrentRelativeHumidity = Some 50\<rparr>"
          "TemperatureSensor demoCloudSensor = Some \<lparr>CurrentTemperature = Some 30\<rparr>"
    by (simp_all add: demoCloudSensor_def demoDevice_def contextNumber_def)
  have v: "api_humidity demoStatus = 999" "api_temperature demoStatus = 500"
    by (simp_all add: demoStatus_def)
  show ?thesis
    unfolding r
    by (simp add: openAPIparseStatus_sensors updateHomeKitCharacteristics_hostValues f v)
qed

section \<open>Claim C2: periodic ticks and the in-progress flag\<close>

text \<open>
  Claim C2 says that the in-progress flag is true while a refresh cycle is in flight,
  so that a tick arriving then is skipped and at most one cycle is active. On a
  freshly constructed sensor one tick puts a cycle in flight and the flag is still
  false; a second tick before that cycle finishes puts a second cycle in flight.
\<close>

theorem overlapping_refresh_cycles:
  "inFlight (schedulerRun (schedulerStart demoSensor) [Tick demoEnv]) = [demoEnv]
   \<and> \<not> ioSensorUpdateInProgress (sensor (schedulerRun (schedulerStart demoSensor) [Tick demoEnv]))
   \<and> inFlight (schedulerRun (schedulerStart demoSensor) [Tick demoEnv, Tick demoMismatchEnv])
        = [demoEnv, demoMismatchEnv]"
proof -
  have f: "\<not> ioSensorUpdateInProgress (sensor (schedulerStart demoSensor))"
    by (simp add: schedulerStart_def demoSensor_def)
  have "inFlight (schedulerRun (schedulerStart demoSensor) (map Tick [demoEnv])) = [demoEnv]"
    by (subst schedulerRun_ticks [OF f]) (simp add: schedulerStart_def)
  moreover
  have "inFlight (schedulerRun (schedulerStart demoSensor) (map Tick [demoEnv, demoMismatchEnv]))
          = [demoEnv, demoMismatchEnv]"
    by (subst schedulerRun_ticks [OF f]) (simp add: schedulerStart_def)
  ultimately show ?thesis using f
    by (simp add: schedulerRun_flag)
qed

text \<open>
  Claim C2, amended. The in-progress flag that the timer's skip operator consults is
  false from construction on and no refresh cycle sets it: it is false after any
  sequence of ticks and finished cycles. Hence no periodic tick is skipped: every
  tick starts a refresh cycle, also while earlier cycles are still in flight.
\<close>

theorem inProgress_flag_never_set:
  "ioSensorUpdateInProgress
     (sensor (schedulerRun (schedulerStart (IOSensor_constructor p ctx d)) evs)) = False
   \<and> inFlight (schedulerStep (schedulerRun (schedulerStart (IOSensor_constructor p ctx d)) evs) (Tick e))
       = inFlight (schedulerRun (schedulerStart (IOSensor_constructor p ctx d)) evs) @ [e]"
proof -
  have "ioSensorUpdateInProgress
     (sensor (schedulerRun (schedulerStart (IOSensor_constructor p ctx d)) evs)) = False"
    by (simp add: schedulerRun_flag schedulerStart_def)
  then show ?thesis by simp
qed

section \<open>Claim C3: the transport-selection policy of refreshStatus\<close>

text \<open>
  Claim C3. \<^verbatim>\<open>refreshStatus\<close> chooses in this order. (1) The connection type includes
  OpenAPI but the cloud service is not enabled: one error is logged and nothing else
  happens, so no transport is contacted. (2) Otherwise, with BLE enabled, the radio
  path runs: the first transport event of the cycle is the BLE connection, followed
  by the scan when the connection exists, and by at most one cloud request, made
  only as the fallback of a failed radio attempt. (3) Otherwise, with OpenAPI enabled
  and a token present, the cycle makes exactly one cloud request and no radio
  attempt. (4) Otherwise no transport is contacted, the stored state and the
  accessory's context stay as they are, and for a device marked offline HomeKit is
  given 50 for the humidity and 30 for the temperature (each where the sensor is
  exposed); for a device not marked offline HomeKit's values stay too.
\<close>

theorem refreshStatus_policy:
  "(\<not> enableCloudService (device this) \<and> OpenAPI this \<longrightarrow>
      refreshStatus e this =
        this\<lparr>events := events this @ [Log ErrorLog ''refreshStatus enableCloudService'']\<rparr>)
   \<and> (\<not> (\<not> enableCloudService (device this) \<and> OpenAPI this) \<and> BLE this \<longrightarrow>
      transportAttempts (refreshStatus e this) =
        transportAttempts this @ ConnectBLE #
          (if switchbotBLE e then [RadioScan] else []) @
          (if (\<not> switchbotBLE e \<or> mismatched (monitorAdvertisementPackets this (advertisements e)))
               \<and> cloudFallback this
           then [CloudFetch] else []))
   \<and> (\<not> (\<not> enableCloudService (device this) \<and> OpenAPI this) \<and> \<not> BLE this
        \<and> OpenAPI this \<and> truthyString (token (platform this)) \<longrightarrow>
      transportAttempts (refreshStatus e this) = transportAttempts this @ [CloudFetch])
   \<and> (\<not> (\<not> enableCloudService (device this) \<and> OpenAPI this) \<and> \<not> BLE this
        \<and> \<not> (OpenAPI this \<and> truthyString (token (platform this))) \<longrightarrow>
      transportAttempts (refreshStatus e this) = transportAttempts this
      \<and> Battery (refreshStatus e this) = Battery this
      \<and> HumiditySensor (refreshStatus e this) = HumiditySensor this
      \<and> TemperatureSensor (refreshStatus e this) = TemperatureSensor this
      \<and> accessoryContext (refreshStatus e this) = accessoryContext this
      \<and> (offline (device this) \<and> \<not> hide_humidity (device this) \<and> HumiditySensor this \<noteq> None \<longrightarrow>
            hostValues (refreshStatus e this) HAP_CurrentRelativeHumidity = Some (Number 50))
      \<and> (offline (device this) \<and> \<not> hide_temperature (device this) \<and> TemperatureSensor this \<noteq> None \<longrightarrow>
            hostValues (refreshStatus e this) HAP_CurrentTemperature = Some (Number 30))
      \<and> (\<not> offline (device this) \<longrightarrow> hostValues (refreshStatus e this) = hostValues this))"
proof (intro conjI impI)
  assume "\<not> enableCloudService (device this) \<and> OpenAPI this"
  then show "refreshStatus e this =
        this\<lparr>events := events this @ [Log ErrorLog ''refreshStatus enableCloudService'']\<rparr>"
    by (simp add: refreshStatus_def emit_def)
next
  assume "\<not> (\<not> enableCloudService (device this) \<and> OpenAPI this) \<and> BLE this"
  then have "refreshStatus e this = BLERefreshStatus e this"
    by (auto simp: refreshStatus_def)
  then show "transportAttempts (refreshStatus e this) =
        transportAttempts this @ ConnectBLE #
          (if switchbotBLE e then [RadioScan] else []) @
          (if (\<not> switchbotBLE e \<or> mismatched (monitorAdvertisementPackets this (advertisements e)))
               \<and> cloudFallback this
           then [CloudFetch] else [])"
    by (simp only: transportAttempts_def BLERefreshStatus_transports)
next
  assume "\<not> (\<not> enableCloudService (device this) \<and> OpenAPI this) \<and> \<not> BLE this
        \<and> OpenAPI this \<and> truthyString (token (platform this))"
  then have "refreshStatus e this = openAPIRefreshStatus e this"
    by (auto simp: refreshStatus_def)
  then show "transportAttempts (refreshStatus e this) = transportAttempts this @ [CloudFetch]"
    by (simp add: transportAttempts_def)
next
  assume a: "\<not> (\<not> enableCloudService (device this) \<and> OpenAPI this) \<and> \<not> BLE this
        \<and> \<not> (OpenAPI this \<and> truthyString (token (platform this)))"
  then have r: "refreshStatus e this =
      emit (Log DebugWarnLog ''refreshStatus will not happen.'') (offlineOff this)"
    by (auto simp: refreshStatus_def)
  show "transportAttempts (refreshStatus e this) = transportAttempts this"
    by (simp add: r transportAttempts_def)
  show "Battery (refreshStatus e this) = Battery this" by (simp add: r)
  show "HumiditySensor (refreshStatus e this) = HumiditySensor this" by (simp add: r)
  show "TemperatureSensor (refreshStatus e this) = TemperatureSensor this" by (simp add: r)
  show "accessoryContext (refreshStatus e this) = accessoryContext this" by (simp add: r)
  { assume "offline (device this) \<and> \<not> hide_humidity (device this) \<and> HumiditySensor this \<noteq> None"
    then show "hostValues (refreshStatus e this) HAP_CurrentRelativeHumidity = Some (Number 50)"
      by (simp add: r offlineOff_hostValues) }
  { assume "offline (device this) \<and> \<not> hide_temperature (device this) \<and> TemperatureSensor this \<noteq> None"
    then show "hostValues (refreshStatus e this) HAP_CurrentTemperature = Some (Number 30)"
      by (simp add: r offlineOff_hostValues) }
  { assume "\<not> offline (device this)"
    then show "hostValues (refreshStatus e this) = hostValues this"
      by (simp add: r offlineOff_hostValues) }
qed

text \<open>
  One sample device for each branch: OpenAPI with the cloud service off; BLE/OpenAPI
  with a matching scan, and with a mismatched scan and a token; OpenAPI with a token;
  a device with neither transport that is marked offline.
\<close>

theorem refreshStatus_policy_witness:
  "refreshStatus demoEnv demoDisabledCloudSensor =
      demoDisabledCloudSensor\<lparr>events := events demoDisabledCloudSensor @
         [Log ErrorLog ''refreshStatus enableCloudService'']\<rparr>
   \<and> transportAttempts (refreshStatus demoEnv demoSensor) = [ConnectBLE, RadioScan]
   \<and> transportAttempts (refreshStatus demoMismatchEnv demoSensor) = [ConnectBLE, RadioScan, CloudFetch]
   \<and> transportAttempts (refreshStatus demoEnv demoCloudSensor) = [CloudFetch]
   \<and> transportAttempts (refreshStatus demoEnv demoOfflineSensor) = []
   \<and> hostValues (refreshStatus demoEnv demoOfflineSensor) HAP_CurrentRelativeHumidity = Some (Number 50)
   \<and> hostValues (refreshStatus demoEnv demoOfflineSensor) HAP_CurrentTemperature = Some (Number 30)"
proof -
  have c1: "\<not> enableCloudService (device demoDisabledCloudSensor) \<and> OpenAPI demoDisabledCloudSensor"
    by (simp add: demoDisabledCloudSensor_def demoDevice_def OpenAPI_def)
  have c2: "\<not> (\<not> enableCloudService (device demoSensor) \<and> OpenAPI demoSensor) \<and> BLE demoSensor"
    by simp
  have c3: "\<not> (\<not> enableCloudService (device demoCloudSensor) \<and> OpenAPI demoCloudSensor)
            \<and> \<not> BLE demoCloudSensor \<and> OpenAPI demoCloudSensor
            \<and> truthyString (token (platform demoCloudSensor))"
    by (simp add: demoCloudSensor_def demoDevice_def demoPlatform_def OpenAPI_def BLE_def
          truthyString_def)
  have c4: "\<not> (\<not> enableCloudService (device demoOfflineSensor) \<and> OpenAPI demoOfflineSensor)
            \<and> \<not> BLE demoOfflineSensor
            \<and> \<not> (OpenAPI demoOfflineSensor \<and> truthyString (token (platform demoOfflineSensor)))"
    by (simp add: demoOfflineSensor_def demoDevice_def OpenAPI_def BLE_def)
  have o: "offline (device demoOfflineSensor)"
          "\<not> hide_humidity (device demoOfflineSensor)" "HumiditySensor demoOfflineSensor \<noteq> None"
          "\<not> hide_temperature (device demoOfflineSensor)" "TemperatureSensor demoOfflineSensor \<noteq> None"
    by (simp_all add: demoOfflineSensor_def demoDevice_def)
  have t0: "transportAttempts demoCloudSensor = []" "transportAttempts demoOfflineSensor = []"
    by (simp_all add: transportAttempts_def demoCloudSensor_def demoOfflineSensor_def)
  have m: "switchbotBLE demoEnv"
          "\<not> mismatched (monitorAdvertisementPackets demoSensor (advertisements demoEnv))"
          "switchbotBLE demoMismatchEnv"
          "mismatched (monitorAdvertisementPackets demoSensor (advertisements demoMismatchEnv))"
    by (simp_all add: demoEnv_def demoMismatchEnv_def demoAd_def demoServiceData_def
          monitorAdvertisementPackets_def demoSensor_models mismatched_def)
  have "refreshStatus demoEnv demoDisabledCloudSensor =
      demoDisabledCloudSensor\<lparr>events := events demoDisabledCloudSensor @
         [Log ErrorLog ''refreshStatus enableCloudService'']\<rparr>"
    using refreshStatus_policy [of demoDisabledCloudSensor demoEnv] c1 by blast
  moreover have "transportAttempts (refreshStatus demoEnv demoSensor) = [ConnectBLE, RadioScan]"
  proof -
    from refreshStatus_policy [of demoSensor demoEnv] c2
    have "transportAttempts (refreshStatus demoEnv demoSensor) =
        transportAttempts demoSensor @ ConnectBLE #
          (if switchbotBLE demoEnv then [RadioScan] else []) @
          (if (\<not> switchbotBLE demoEnv
                 \<or> mismatched (monitorAdvertisementPackets demoSensor (advertisements demoEnv)))
               \<and> cloudFallback demoSensor
           then [CloudFetch] else [])"
      by blast
    then show ?thesis using m by simp
  qed
  moreover have "transportAttempts (refreshStatus demoMismatchEnv demoSensor)
                   = [ConnectBLE, RadioScan, CloudFetch]"
  proof -
    from refreshStatus_policy [of demoSensor demoMismatchEnv] c2
    have "transportAttempts (refreshStatus demoMismatchEnv demoSensor) =
        transportAttempts demoSensor @ ConnectBLE #
          (if switchbotBLE demoMismatchEnv then [RadioScan] else []) @
          (if (\<not> switchbotBLE demoMismatchEnv
                 \<or> mismatched (monitorAdvertisementPackets demoSensor
                                  (advertisements demoMismatchEnv)))
               \<and> cloudFallback demoSensor
           then [CloudFetch] else [])"
      by blast
    then show ?thesis using m by simp
  qed
  moreover have "transportAttempts (refreshStatus demoEnv demoCloudSensor) = [CloudFetch]"
  proof -
    from refreshStatus_policy [of demoCloudSensor demoEnv] c3
    have "transportAttempts (refreshStatus demoEnv demoCloudSensor) =
            transportAttempts demoCloudSensor @ [CloudFetch]"
      by blast
    then show ?thesis by (simp add: t0)
  qed
  moreover have "transportAttempts (refreshStatus demoEnv demoOfflineSensor) = []
     \<and> hostValues (refreshStatus demoEnv demoOfflineSensor) HAP_CurrentRelativeHumidity = Some (Number 50)
     \<and> hostValues (refreshStatus demoEnv demoOfflineSensor) HAP_CurrentTemperature = Some (Number 30)"
  proof -
    from refreshStatus_policy [of demoOfflineSensor demoEnv] c4 o
    have "transportAttempts (refreshStatus demoEnv demoOfflineSensor) = transportAttempts demoOfflineSensor
     \<and> hostValues (refreshStatus demoEnv demoOfflineSensor) HAP_CurrentRelativeHumidity = Some (Number 50)
     \<and> hostValues (refreshStatus demoEnv demoOfflineSensor) HAP_CurrentTemperature = Some (Number 30)"
      by blast
    then show ?thesis by (simp add: t0)
  qed
  ultimately show ?thesis by blast
qed

section \<open>Claim C4: a mismatched radio payload and the single cloud fallback\<close>




section \<open>Claim C5: the remapping of status code 171\<close>

text \<open>
  Claim C5. The code that \<^verbatim>\<open>statusCode\<close> classifies is 161 in place of 171 exactly
  when the device's hub id equals its own id or is the placeholder of twelve zeros;
  every other code, and 171 for any other hub id, is classified as it came.
\<close>

theorem statusCode_remap:
  "snd (snd (statusCode d c)) =
     (if c = 171 \<and> (hubDeviceId d = deviceId d \<or> hubDeviceId d = ''000000000000'')
      then 161 else c)
   \<and> (snd (snd (statusCode d c)) \<noteq> c) =
     (c = 171 \<and> (hubDeviceId d = deviceId d \<or> hubDeviceId d = ''000000000000''))"
  by (simp add: statusCode_def remapStatusCode_def Let_def)

theorem statusCode_remap_witness:
  "statusCode demoDevice 171 = (Status_errorLog, KnownStatus ''Device is offline'', 161)
   \<and> snd (snd (statusCode (demoDevice\<lparr>hubDeviceId := ''112233445566''\<rparr>) 171)) = 171
   \<and> snd (snd (statusCode demoDevice 429)) = 429"
  using statusCode_remap [of demoDevice 171]
        statusCode_remap [of "demoDevice\<lparr>hubDeviceId := ''112233445566''\<rparr>" 171]
        statusCode_remap [of demoDevice 429]
  by (simp add: statusCode_def remapStatusCode_def statusMessages_def truthyString_def
        demoDevice_def Let_def)

section \<open>Claim C6: a cloud answer that is not a success\<close>

text \<open>
  Claim C6. \<^verbatim>\<open>successfulStatusCodes\<close> holds exactly for the codes 100 and 200. When
  the cloud answers with any other code, \<^verbatim>\<open>openAPIRefreshStatus\<close> neither parses nor
  publishes: the object is as before except for the recorded cloud request and two
  log lines, so the stored state, HomeKit's values and the accessory's context are
  unchanged.
\<close>

theorem openAPI_nonsuccess:
  "successfulStatusCodes c = (c = 100 \<or> c = 200)
   \<and> (deviceRefreshStatus e = Response r \<and> \<not> successfulStatusCodes (api_statusCode r) \<longrightarrow>
        openAPIRefreshStatus e this =
          this\<lparr>events := events this @
            [CloudFetch, Log DebugWarnLog ''statusCode'', Log DebugWarnLog ''deviceStatus'']\<rparr>)"
  by (auto simp: openAPIRefreshStatus_def successfulStatusCodes_def emit_def)

theorem openAPI_nonsuccess_witness:
  "\<not> successfulStatusCodes 161
   \<and> openAPIRefreshStatus
        (demoEnv\<lparr>deviceRefreshStatus := Response \<lparr>api_statusCode = 161, api_body = demoStatus\<rparr>\<rparr>)
        demoSensor
      = demoSensor\<lparr>events := events demoSensor @
             [CloudFetch, Log DebugWarnLog ''statusCode'', Log DebugWarnLog ''deviceStatus'']\<rparr>"
  using openAPI_nonsuccess
    [of 161 "demoEnv\<lparr>deviceRefreshStatus := Response \<lparr>api_statusCode = 161, api_body = demoStatus\<rparr>\<rparr>"
        "\<lparr>api_statusCode = 161, api_body = demoStatus\<rparr>" demoSensor]
  by simp

section \<open>Claim C7: updateCharacteristic and the published state\<close>

text \<open>
  Claim C7. With an undefined value \<^verbatim>\<open>updateCharacteristic\<close> changes nothing, so the
  accessory's context keeps its entry. With a defined value the context entry of
  that name becomes the value, HomeKit's characteristic becomes the same value, and
  among the events of the call the push to HomeKit comes first and the write to the
  context second, both with that value and each once.
\<close>

theorem updateCharacteristic_published:
  "updateCharacteristic c None n this = this
   \<and> accessoryContext (updateCharacteristic c (Some v) n this) = (accessoryContext this)(n \<mapsto> v)
   \<and> hostValues (updateCharacteristic c (Some v) n this) = (hostValues this)(c \<mapsto> v)
   \<and> filter isPublish (eventsSince this (updateCharacteristic c (Some v) n this))
       = [HostUpdate c v, ContextSet n v]"
  by (simp add: updateCharacteristic_def mqtt_def Service_updateCharacteristic_def
        eventsSince_def Let_def emit_def)

theorem updateCharacteristic_published_witness:
  "accessoryContext
     (updateCharacteristic HAP_BatteryLevel (Some (Number 45)) ''BatteryLevel'' demoSensor)
     ''BatteryLevel'' = Some (Number 45)
   \<and> accessoryContext
     (updateCharacteristic HAP_BatteryLevel None ''BatteryLevel'' demoSensor) ''BatteryLevel'' = None"
  using updateCharacteristic_published [of HAP_BatteryLevel "''BatteryLevel''" demoSensor "Number 45"]
  by (simp add: demoSensor_def)

section \<open>Claim C8: the battery fields under a partial radio payload\<close>

text \<open>
  Claim C8. \<^verbatim>\<open>BLEparseStatus\<close>, of the indoor/outdoor sensor and of the motion sensor
  alike, touches the battery exactly when the payload has a battery field: then the
  level is that value and the low-battery status is LOW when the value is below 10
  and NORMAL otherwise; without the field both keep their earlier values.
\<close>

theorem battery_partial_payload:
  "Battery (BLEparseStatus sd this) =
     (case ble_battery sd of
        None \<Rightarrow> Battery this
      | Some b \<Rightarrow> \<lparr>BatteryLevel = b,
                   StatusLowBattery = (if b < 10 then BATTERY_LEVEL_LOW else BATTERY_LEVEL_NORMAL)\<rparr>)
   \<and> MotionBattery (Motion_BLEparseStatus msd m) =
     (case mble_battery msd of
        None \<Rightarrow> MotionBattery m
      | Some b \<Rightarrow> \<lparr>BatteryLevel = b,
                   StatusLowBattery = (if b < 10 then BATTERY_LEVEL_LOW else BATTERY_LEVEL_NORMAL)\<rparr>)"
  by (simp add: BLEparseStatus_def Motion_BLEparseStatus_def Let_def split: option.splits)

theorem battery_partial_payload_witness:
  "Battery (BLEparseStatus demoServiceData demoSensor)
     = \<lparr>BatteryLevel = 45, StatusLowBattery = BATTERY_LEVEL_NORMAL\<rparr>
   \<and> Battery (BLEparseStatus (demoServiceData\<lparr>ble_battery := Some 5\<rparr>) demoSensor)
     = \<lparr>BatteryLevel = 5, StatusLowBattery = BATTERY_LEVEL_LOW\<rparr>
   \<and> Battery (BLEparseStatus (demoServiceData\<lparr>ble_battery := None\<rparr>) demoSensor)
     = \<lparr>BatteryLevel = 100, StatusLowBattery = BATTERY_LEVEL_NORMAL\<rparr>"
  using battery_partial_payload [of demoServiceData demoSensor]
        battery_partial_payload [of "demoServiceData\<lparr>ble_battery := Some 5\<rparr>" demoSensor]
        battery_partial_payload [of "demoServiceData\<lparr>ble_battery := None\<rparr>" demoSensor]
  by (simp add: demoServiceData_def demoSensor_def contextNumber_def contextLowBattery_def)

section \<open>Claim C9: hide flags and the webhook\<close>

text \<open>
  Claim C9 says that a webhook event applies its humidity and its temperature when
  the matching hide flag is off. \<^verbatim>\<open>parseStatusWebhook\<close> tests the hide flags without
  the negation that the other two parsers and \<^verbatim>\<open>updateHomeKitCharacteristics\<close> have.
  On a sensor with both flags off, holding 50 and 30, a webhook that reports a
  humidity of 60 and a temperature of 22 leaves 50 and 30 stored, and the update that
  follows pushes 50 and 30 to HomeKit, whatever the unit conversion is.
\<close>

theorem webhook_not_applied:
  "\<not> hide_humidity (device demoSensor) \<and> \<not> hide_temperature (device demoSensor)
   \<and> wh_humidity demoWebhook = 60 \<and> wh_temperature demoWebhook = 22
   \<and> HumiditySensor demoSensor = Some \<lparr>CurrentRelativeHumidity = Some 50\<rparr>
   \<and> TemperatureSensor demoSensor = Some \<lparr>CurrentTemperature = Some 30\<rparr>
   \<and> HumiditySensor (parseStatusWebhook cu demoWebhook demoSensor)
        = Some \<lparr>CurrentRelativeHumidity = Some 50\<rparr>
   \<and> TemperatureSensor (parseStatusWebhook cu demoWebhook demoSensor)
        = Some \<lparr>CurrentTemperature = Some 30\<rparr>
   \<and> hostValues (updateHomeKitCharacteristics (parseStatusWebhook cu demoWebhook demoSensor))
        HAP_CurrentRelativeHumidity = Some (Number 50)
   \<and> hostValues (updateHomeKitCharacteristics (parseStatusWebhook cu demoWebhook demoSensor))
        HAP_CurrentTemperature = Some (Number 30)"
proof -
  have d: "device (parseStatusWebhook cu demoWebhook demoSensor) = device demoSensor"
    by (simp add: parseStatusWebhook_def Let_def split: option.splits)
  have f: "\<not> hide_humidity (device demoSensor)" "\<not> hide_temperature (device demoSensor)"
          "HumiditySensor demoSensor = Some \<lparr>CurrentRelativeHumidity = Some 50\<rparr>"
          "TemperatureSensor demoSensor = Some \<lparr>CurrentTemperature = Some 30\<rparr>"
    by (simp_all add: demoSensor_def demoDevice_def contextNumber_def)
  have k: "HumiditySensor (parseStatusWebhook cu demoWebhook demoSensor) = HumiditySensor demoSensor"
          "TemperatureSensor (parseStatusWebhook cu demoWebhook demoSensor) = TemperatureSensor demoSensor"
    unfolding demoSensor_def by (rule parseStatusWebhook_constructed)+
  have v: "wh_humidity demoWebhook = 60" "wh_temperature demoWebhook = 22"
    by (simp_all add: demoWebhook_def)
  show ?thesis
    by (simp add: updateHomeKitCharacteristics_hostValues d f k v)
qed

section \<open>Claim C10: the effective scan duration\<close>

text \<open>
  Claim C10 says that a configured scan duration below the bounds is overridden with
  a warning. A device on BLE configured with a scan duration of 0.5 and an update
  rate of 0.4 gets the scan duration 1, and the constructor logs nothing.
\<close>

theorem scanDuration_override_without_warning:
  "BLE (deviceBase_constructor demoPlatform Map.empty demoShortScanDevice)
   \<and> configScanDuration demoShortScanDevice = Some (1 / 2)
   \<and> deviceUpdateRate (deviceBase_constructor demoPlatform Map.empty demoShortScanDevice) = 2 / 5
   \<and> scanDuration (deviceBase_constructor demoPlatform Map.empty demoShortScanDevice) = 1
   \<and> events (deviceBase_constructor demoPlatform Map.empty demoShortScanDevice) = []"
  by (simp add: deviceBase_constructor_def scanDuration_getDeviceRateSettings
        deviceUpdateRate_getDeviceRateSettings events_getDeviceRateSettings BLE_def
        demoShortScanDevice_def demoDevice_def demoPlatform_def nullish_def truthyNumber_def)

text \<open>
  Claim C10, amended. After \<^verbatim>\<open>getDeviceRateSettings\<close> the scan duration is at least
  1, and whenever the effective update rate is above 1 the scan duration is at least
  the update rate, whatever smaller scan duration the device's configuration asks
  for: it is the larger of the configured value (1 when there is none) and of the
  update rate when that is above 1, else 1. The warning is logged exactly when the
  device uses BLE and its configured scan duration is non-zero and below the
  effective update rate; an override in any other case is silent.
\<close>

theorem scanDuration_bounds:
  "1 \<le> scanDuration (getDeviceRateSettings this) \<and>
   (1 < deviceUpdateRate (getDeviceRateSettings this) \<longrightarrow>
      deviceUpdateRate (getDeviceRateSettings this) \<le> scanDuration (getDeviceRateSettings this))
   \<and> scanDuration (getDeviceRateSettings this) =
        max (nullish (configScanDuration (device this)) 1)
            (if 1 < deviceUpdateRate (getDeviceRateSettings this)
             then deviceUpdateRate (getDeviceRateSettings this) else 1)
   \<and> events (getDeviceRateSettings this) =
        events this @
          (if BLE this \<and> truthyNumber (configScanDuration (device this))
              \<and> nullish (configScanDuration (device this)) 0
                  < deviceUpdateRate (getDeviceRateSettings this)
           then [Log WarnLog ''scanDuration is less than updateRate, overriding scanDuration with updateRate'']
           else [])"
proof -
  let ?u = "deviceUpdateRate (getDeviceRateSettings this)"
  let ?c = "nullish (configScanDuration (device this)) 1"
  have s: "scanDuration (getDeviceRateSettings this) = max ?c (if 1 < ?u then ?u else 1)"
    by (rule scanDuration_getDeviceRateSettings)
  have b: "1 \<le> scanDuration (getDeviceRateSettings this) \<and>
           (1 < ?u \<longrightarrow> ?u \<le> scanDuration (getDeviceRateSettings this))"
    unfolding s by auto
  show ?thesis
    using b s events_getDeviceRateSettings [of this] by blast
qed

text \<open>
  A device on BLE configured with a scan duration of 2 and an update rate of 10 scans
  for 10, and the constructor logs the warning.
\<close>

theorem scanDuration_bounds_witness:
  "1 < deviceUpdateRate (deviceBase_constructor demoPlatform Map.empty demoDevice)
   \<and> configScanDuration demoDevice = Some 2
   \<and> scanDuration (deviceBase_constructor demoPlatform Map.empty demoDevice) = 10
   \<and> events (deviceBase_constructor demoPlatform Map.empty demoDevice) =
       [Log WarnLog ''scanDuration is less than updateRate, overriding scanDuration with updateRate'']"
proof -
  let ?raw = "\<lparr>device = demoDevice, platform = demoPlatform, deviceRefreshRate = 0,
       deviceUpdateRate = 0, devicePushRate = 0, deviceMaxRetries = 0,
       deviceDelayBetweenRetries = 0, scanDuration = 0, historyService = False,
       hostValues = Map.empty, accessoryContext = Map.empty, events = []\<rparr>"
  have u: "deviceUpdateRate (getDeviceRateSettings ?raw) = 10"
    by (simp add: deviceUpdateRate_getDeviceRateSettings demoDevice_def nullish_def)
  have c: "configScanDuration demoDevice = Some 2"
    by (simp add: demoDevice_def)
  have g: "BLE ?raw" "truthyNumber (configScanDuration (device ?raw))"
    by (simp_all add: BLE_def demoDevice_def truthyNumber_def)
  note t = scanDuration_bounds [of ?raw]
  from t have "scanDuration (getDeviceRateSettings ?raw) =
        max (nullish (configScanDuration (device ?raw)) 1)
            (if 1 < deviceUpdateRate (getDeviceRateSettings ?raw)
             then deviceUpdateRate (getDeviceRateSettings ?raw) else 1)"
    by blast
  then have sc: "scanDuration (getDeviceRateSettings ?raw) = 10"
    unfolding u using c by (simp add: nullish_def)
  from t have "events (getDeviceRateSettings ?raw) =
        events ?raw @
          (if BLE ?raw \<and> truthyNumber (configScanDuration (device ?raw))
              \<and> nullish (configScanDuration (device ?raw)) 0
                  < deviceUpdateRate (getDeviceRateSettings ?raw)
           then [Log WarnLog ''scanDuration is less than updateRate, overriding scanDuration with updateRate'']
           else [])"
    by blast
  then have ev: "events (getDeviceRateSettings ?raw) =
       [Log WarnLog ''scanDuration is less than updateRate, overriding scanDuration with updateRate'']"
    unfolding u using g c by (simp add: nullish_def)
  show ?thesis using u c sc ev
    by (simp add: deviceBase_constructor_def)
qed

end
